theory Spec2Isabelle
  imports Complex_Main
begin

section \<open>Python values: exceptions, list indexing, integer conversion\<close>

text \<open>
  The exceptions the module can raise. A failed \<^verbatim>\<open>assert\<close> carries its message, which is
  what tells one violated precondition from another.
\<close>

datatype py_error =
    AssertionError string
  | IndexError
  | ValueError
  | QiskitError string

text \<open>
  A method that mutates its receiver either returns or raises; in both cases the receiver is
  left in some state, which the caller can still observe. \<open>Raise e s\<close> is an exception \<open>e\<close>
  escaping with the receiver in state \<open>s\<close>.
\<close>

datatype 's outcome =
    Ok (state: 's)
  | Raise (err: py_error) (state: 's)

definition raised :: "'s outcome \<Rightarrow> bool" where
  "raised r = (case r of Ok _ \<Rightarrow> False | Raise _ _ \<Rightarrow> True)"

text \<open>Sequencing of two mutations of the same object: the second runs only if the first returned.\<close>

definition and_then :: "'s outcome \<Rightarrow> ('s \<Rightarrow> 's outcome) \<Rightarrow> 's outcome" where
  "and_then r f = (case r of Ok s \<Rightarrow> f s | Raise e s \<Rightarrow> Raise e s)"

fun for_each :: "('a \<Rightarrow> 's \<Rightarrow> 's outcome) \<Rightarrow> 'a list \<Rightarrow> 's \<Rightarrow> 's outcome" where
  "for_each f [] s = Ok s"
| "for_each f (x # xs) s = and_then (f x s) (for_each f xs)"

text \<open>Sequencing of computations that return a value or raise.\<close>

definition bind_res :: "py_error + 'a \<Rightarrow> ('a \<Rightarrow> py_error + 'b) \<Rightarrow> py_error + 'b" where
  "bind_res r f = (case r of Inl e \<Rightarrow> Inl e | Inr v \<Rightarrow> f v)"

fun map_res :: "('a \<Rightarrow> py_error + 'b) \<Rightarrow> 'a list \<Rightarrow> py_error + 'b list" where
  "map_res f [] = Inr []"
| "map_res f (x # xs) =
     bind_res (f x) (\<lambda>y. bind_res (map_res f xs) (\<lambda>ys. Inr (y # ys)))"

fun fold_res :: "('a \<Rightarrow> 'b \<Rightarrow> py_error + 'b) \<Rightarrow> 'a list \<Rightarrow> 'b \<Rightarrow> py_error + 'b" where
  "fold_res f [] acc = Inr acc"
| "fold_res f (x # xs) acc = bind_res (f x acc) (fold_res f xs)"

text \<open>\<^verbatim>\<open>range(n)\<close> for a Python integer \<open>n\<close>: empty when \<open>n \<le> 0\<close>.\<close>

definition py_range :: "int \<Rightarrow> int list" where
  "py_range n = map int [0..<nat n]"

text \<open>\<^verbatim>\<open>range(a, b)\<close>.\<close>

definition py_range2 :: "int \<Rightarrow> int \<Rightarrow> int list" where
  "py_range2 a b = map (\<lambda>k. a + int k) [0..<nat (b - a)]"

text \<open>
  List subscripts: a negative subscript counts from the end, anything outside the list raises
  \<^verbatim>\<open>IndexError\<close>.
\<close>

definition py_index :: "'a list \<Rightarrow> int \<Rightarrow> nat option" where
  "py_index xs i =
     (let n = int (length xs); j = (if i < 0 then n + i else i)
      in if 0 \<le> j \<and> j < n then Some (nat j) else None)"

definition py_getitem :: "'a list \<Rightarrow> int \<Rightarrow> py_error + 'a" where
  "py_getitem xs i = (case py_index xs i of None \<Rightarrow> Inl IndexError | Some j \<Rightarrow> Inr (xs ! j))"

definition py_setitem :: "'a list \<Rightarrow> int \<Rightarrow> 'a \<Rightarrow> py_error + 'a list" where
  "py_setitem xs i v =
     (case py_index xs i of None \<Rightarrow> Inl IndexError | Some j \<Rightarrow> Inr (xs[j := v]))"

text \<open>
  \<^verbatim>\<open>int(x)\<close> of the result of a true division \<^verbatim>\<open>/\<close>: truncation towards zero. The quotient
  is taken exactly, as a rational; the rounding of the 64-bit float that Python computes is not
  modelled.
\<close>

definition py_int :: "rat \<Rightarrow> int" where
  "py_int x = (if x < 0 then - \<lfloor>- x\<rfloor> else \<lfloor>x\<rfloor>)"

text \<open>\<^verbatim>\<open>x % y\<close> on floats, for a positive \<open>y\<close>.\<close>

definition py_fmod :: "rat \<Rightarrow> rat \<Rightarrow> rat" where
  "py_fmod x y = x - y * of_int \<lfloor>x / y\<rfloor>"

text \<open>\<^verbatim>\<open>itertools.combinations(xs, r)\<close>, in the order the iterator yields them.\<close>

fun combinations :: "'a list \<Rightarrow> nat \<Rightarrow> 'a list list" where
  "combinations xs 0 = [[]]"
| "combinations [] (Suc r) = []"
| "combinations (x # xs) (Suc r) = map ((#) x) (combinations xs r) @ combinations xs (Suc r)"

text \<open>\<^verbatim>\<open>[j for j, e in enumerate(row) if e != 0]\<close>.\<close>

definition support_of :: "int list \<Rightarrow> int list" where
  "support_of row = map (\<lambda>(j, e). int j) (filter (\<lambda>(j, e). e \<noteq> 0) (enumerate 0 row))"


section \<open>SpecialPolynomial\<close>

record SpecialPolynomial =
  n_vars :: int
  nc2 :: int
  nc3 :: int
  weight_0 :: int
  weight_1 :: "int list"
  weight_2 :: "int list"
  weight_3 :: "int list"

definition SpecialPolynomial_init :: "int \<Rightarrow> py_error + SpecialPolynomial" where
  "SpecialPolynomial_init n =
     (if \<not> n \<ge> 1 then Inl (AssertionError ''n_vars too small!'')
      else
        let c2 = py_int (of_int (n * (n - 1)) / 2);
            c3 = py_int (of_int (n * (n - 1) * (n - 2)) / 6)
        in Inr \<lparr> n_vars = n, nc2 = c2, nc3 = c3, weight_0 = 0,
                  weight_1 = replicate (nat n) 0,
                  weight_2 = replicate (nat c2) 0,
                  weight_3 = replicate (nat c3) 0 \<rparr>)"

text \<open>
  The three assertions that open \<^verbatim>\<open>get_term\<close>, \<^verbatim>\<open>set_term\<close> and \<^verbatim>\<open>mul_monomial\<close>, in the
  order the source checks them.
\<close>

definition check_indices :: "int \<Rightarrow> int list \<Rightarrow> py_error option" where
  "check_indices n indices =
     (if \<not> length indices < 4 then Some (AssertionError ''no term!'')
      else if list_ex (\<lambda>x. x < 0 \<or> x \<ge> n) indices
        then Some (AssertionError ''indices out of bounds!'')
      else if \<not> sorted_wrt (<) indices
        then Some (AssertionError ''indices non-increasing!'')
      else None)"

text \<open>
  The offsets into \<^verbatim>\<open>weight_2\<close> and \<^verbatim>\<open>weight_3\<close>; \<^verbatim>\<open>get_term\<close> and \<^verbatim>\<open>set_term\<close> compute them
  with the same expressions.
\<close>

definition offset_quadratic :: "int \<Rightarrow> int \<Rightarrow> int \<Rightarrow> int" where
  "offset_quadratic n i0 i1 =
     (let offset_1 = py_int (of_int (i0 * n) - of_int ((i0 + 1) * i0) / 2);
          offset_2 = i1 - i0 - 1
      in offset_1 + offset_2)"

definition offset_cubic :: "int \<Rightarrow> int \<Rightarrow> int \<Rightarrow> int \<Rightarrow> int" where
  "offset_cubic n i0 i1 i2 =
     (let offset_1 = py_int (of_int (i0 * (2 + i0 ^ 2 - 3 * i0 * (n - 1) - 6 * n + 3 * n ^ 2)) / 6);
          offset_2 = py_int (of_int ((i1 - i0 - 1) * (2 * n - i1 + i0 - 2)) / 2);
          offset_3 = i2 - i1 - 1
      in offset_1 + offset_2 + offset_3)"

definition get_term :: "SpecialPolynomial \<Rightarrow> int list \<Rightarrow> py_error + int" where
  "get_term p indices =
     (case check_indices (n_vars p) indices of
        Some e \<Rightarrow> Inl e
      | None \<Rightarrow>
         (case indices of
            [] \<Rightarrow> Inr (weight_0 p)
          | [i0] \<Rightarrow> py_getitem (weight_1 p) i0
          | [i0, i1] \<Rightarrow> py_getitem (weight_2 p) (offset_quadratic (n_vars p) i0 i1)
          | i0 # i1 # i2 # _ \<Rightarrow> py_getitem (weight_3 p) (offset_cubic (n_vars p) i0 i1 i2)))"

definition set_term :: "SpecialPolynomial \<Rightarrow> int list \<Rightarrow> int \<Rightarrow> SpecialPolynomial outcome" where
  "set_term p indices v =
     (case check_indices (n_vars p) indices of
        Some e \<Rightarrow> Raise e p
      | None \<Rightarrow>
         (let val = v mod 8 in
          case indices of
            [] \<Rightarrow> Ok (p\<lparr>weight_0 := val\<rparr>)
          | [i0] \<Rightarrow>
              (case py_setitem (weight_1 p) i0 val of
                 Inl e \<Rightarrow> Raise e p | Inr w \<Rightarrow> Ok (p\<lparr>weight_1 := w\<rparr>))
          | [i0, i1] \<Rightarrow>
              (case py_setitem (weight_2 p) (offset_quadratic (n_vars p) i0 i1) val of
                 Inl e \<Rightarrow> Raise e p | Inr w \<Rightarrow> Ok (p\<lparr>weight_2 := w\<rparr>))
          | i0 # i1 # i2 # _ \<Rightarrow>
              (case py_setitem (weight_3 p) (offset_cubic (n_vars p) i0 i1 i2) val of
                 Inl e \<Rightarrow> Raise e p | Inr w \<Rightarrow> Ok (p\<lparr>weight_3 := w\<rparr>))))"

text \<open>The zero polynomial on \<open>n\<close> variables, for \<open>n \<ge> 1\<close>: what the constructor returns.\<close>

definition zero_poly :: "int \<Rightarrow> SpecialPolynomial" where
  "zero_poly n =
     \<lparr> n_vars = n, nc2 = py_int (of_int (n * (n - 1)) / 2),
       nc3 = py_int (of_int (n * (n - 1) * (n - 2)) / 6), weight_0 = 0,
       weight_1 = replicate (nat n) 0,
       weight_2 = replicate (nat (py_int (of_int (n * (n - 1)) / 2))) 0,
       weight_3 = replicate (nat (py_int (of_int (n * (n - 1) * (n - 2)) / 6))) 0 \<rparr>"


definition outcome_res :: "'s outcome \<Rightarrow> py_error + 's" where
  "outcome_res r = (case r of Ok s \<Rightarrow> Inr s | Raise e _ \<Rightarrow> Inl e)"

text \<open>
  The term lists \<^verbatim>\<open>terms0 + terms1 + terms2 + terms3\<close> that \<^verbatim>\<open>mul_monomial\<close>, \<^verbatim>\<open>__mul__\<close> and
  \<^verbatim>\<open>evaluate\<close> build with the same comprehensions.
\<close>

definition terms1 :: "int \<Rightarrow> int list list" where
  "terms1 n = map (\<lambda>i. [i]) (py_range n)"

definition terms2 :: "int \<Rightarrow> int list list" where
  "terms2 n = concat (map (\<lambda>i. map (\<lambda>j. [i, j]) (py_range2 (i + 1) n)) (py_range (n - 1)))"

definition terms3 :: "int \<Rightarrow> int list list" where
  "terms3 n =
     concat (map (\<lambda>i.
       concat (map (\<lambda>j. map (\<lambda>k. [i, j, k]) (py_range2 (j + 1) n)) (py_range2 (i + 1) (n - 1))))
       (py_range (n - 2)))"

definition all_terms :: "int \<Rightarrow> int list list" where
  "all_terms n = [[]] @ terms1 n @ terms2 n @ terms3 n"

text \<open>
  \<^verbatim>\<open>list(set(term).union(set(indices)))\<close>. The order of the resulting list is the order in
  which CPython iterates the set, which is the order of the slots of its hash table. The model
  follows \<^verbatim>\<open>setobject.c\<close> of CPython 3: a table of 8 slots that is enlarged when it fills, the
  hash of an integer as its first slot, nine linear probes where the table has room for them,
  then the perturbed sequence \<open>i \<leftarrow> 5 i + 1 + perturb\<close>. Nothing is ever deleted from these
  sets, so a slot is either empty or holds a key.
\<close>

definition py_hash :: "int \<Rightarrow> int" where
  "py_hash k =
     (let h = (if k < 0 then - ((- k) mod (2 ^ 61 - 1)) else k mod (2 ^ 61 - 1))
      in if h = - 1 then - 2 else h)"

text \<open>
  The slot for a key: \<open>Some i\<close> is the free slot where it goes, \<open>None\<close> says that the key is in
  the table already. The last argument bounds the number of rounds of the probe loop.
\<close>

fun find_slot :: "int option list \<Rightarrow> int \<Rightarrow> nat \<Rightarrow> nat \<Rightarrow> nat \<Rightarrow> nat option" where
  "find_slot t k i perturb 0 = None"
| "find_slot t k i perturb (Suc fuel) =
     (if t ! i = None then Some i
      else if t ! i = Some k then None
      else
        case (if i + 9 \<le> length t - 1
              then List.find (\<lambda>j. t ! j = None \<or> t ! j = Some k) [i + 1 ..< i + 10]
              else None) of
          Some j \<Rightarrow> (if t ! j = None then Some j else None)
        | None \<Rightarrow>
            let p = perturb div 32
            in find_slot t k ((i * 5 + 1 + p) mod length t) p fuel)"

definition slot_of :: "int option list \<Rightarrow> int \<Rightarrow> nat option" where
  "slot_of t k =
     find_slot t k (nat (py_hash k mod int (length t))) (nat (py_hash k mod 2 ^ 64))
       (length t + 14)"

definition set_keys :: "int option list \<Rightarrow> int list" where
  "set_keys t = List.map_filter (\<lambda>x. x) t"

definition set_insert_clean :: "int \<Rightarrow> int option list \<Rightarrow> int option list" where
  "set_insert_clean k t = (case slot_of t k of None \<Rightarrow> t | Some i \<Rightarrow> t[i := Some k])"

fun table_size :: "nat \<Rightarrow> nat \<Rightarrow> nat \<Rightarrow> nat" where
  "table_size 0 newsize minused = newsize"
| "table_size (Suc fuel) newsize minused =
     (if newsize \<le> minused then table_size fuel (2 * newsize) minused else newsize)"

definition set_table_resize :: "int option list \<Rightarrow> nat \<Rightarrow> int option list" where
  "set_table_resize t minused =
     fold set_insert_clean (set_keys t) (replicate (table_size (Suc minused) 8 minused) None)"

definition set_add_key :: "int \<Rightarrow> int option list \<Rightarrow> int option list" where
  "set_add_key k t =
     (case slot_of t k of
        None \<Rightarrow> t
      | Some i \<Rightarrow>
          let t' = t[i := Some k]; fill = length (set_keys t')
          in if fill * 5 < (length t' - 1) * 3 then t'
             else set_table_resize t' (if fill > 50000 then fill * 2 else fill * 4))"

definition set_merge :: "int option list \<Rightarrow> int option list \<Rightarrow> int option list" where
  "set_merge so other =
     (if set_keys other = [] then so
      else
        let so1 = (if (length (set_keys so) + length (set_keys other)) * 5 \<ge> (length so - 1) * 3
                   then set_table_resize so ((length (set_keys so) + length (set_keys other)) * 2)
                   else so)
        in if set_keys so1 = [] \<and> length so1 = length other then other
           else if set_keys so1 = [] then fold set_insert_clean (set_keys other) so1
           else fold set_add_key (set_keys other) so1)"

text \<open>\<^verbatim>\<open>set(xs)\<close> for a list, and the copy that \<^verbatim>\<open>union\<close> starts from.\<close>

definition py_set :: "int list \<Rightarrow> int option list" where
  "py_set xs = fold set_add_key xs (replicate 8 None)"

definition set_copy :: "int option list \<Rightarrow> int option list" where
  "set_copy t = set_merge (replicate 8 None) t"

definition py_set_union :: "int list \<Rightarrow> int list \<Rightarrow> int list" where
  "py_set_union term indices = set_keys (set_merge (set_copy (py_set term)) (py_set indices))"

definition mul_monomial :: "SpecialPolynomial \<Rightarrow> int list \<Rightarrow> py_error + SpecialPolynomial" where
  "mul_monomial p indices =
     (case check_indices (n_vars p) indices of
        Some e \<Rightarrow> Inl e
      | None \<Rightarrow>
          bind_res (SpecialPolynomial_init (n_vars p)) (\<lambda>result.
            if length indices = 0 then Inr p
            else
              fold_res (\<lambda>term result.
                bind_res (get_term p term) (\<lambda>val.
                  let new_term = py_set_union term indices in
                  bind_res (get_term result new_term) (\<lambda>old.
                    outcome_res (set_term result new_term ((old + val) mod 8)))))
                (all_terms (n_vars p)) result))"

text \<open>\<^verbatim>\<open>SpecialPolynomial.__mul__\<close> with an integer operand.\<close>

definition mul_int :: "SpecialPolynomial \<Rightarrow> int \<Rightarrow> py_error + SpecialPolynomial" where
  "mul_int p c =
     bind_res (SpecialPolynomial_init (n_vars p)) (\<lambda>result.
       Inr (result\<lparr> weight_0 := (weight_0 p * c) mod 8,
                    weight_1 := map (\<lambda>x. (x * c) mod 8) (weight_1 p),
                    weight_2 := map (\<lambda>x. (x * c) mod 8) (weight_2 p),
                    weight_3 := map (\<lambda>x. (x * c) mod 8) (weight_3 p) \<rparr>))"

definition add :: "SpecialPolynomial \<Rightarrow> SpecialPolynomial \<Rightarrow> py_error + SpecialPolynomial" where
  "add p other =
     (if n_vars p \<noteq> n_vars other then Inl (AssertionError ''different n_vars!'')
      else
        bind_res (SpecialPolynomial_init (n_vars p)) (\<lambda>result.
          Inr (result\<lparr> weight_0 := (weight_0 p + weight_0 other) mod 8,
                       weight_1 := map (\<lambda>(x, y). (x + y) mod 8) (zip (weight_1 p) (weight_1 other)),
                       weight_2 := map (\<lambda>(x, y). (x + y) mod 8) (zip (weight_2 p) (weight_2 other)),
                       weight_3 := map (\<lambda>(x, y). (x + y) mod 8) (zip (weight_3 p) (weight_3 other)) \<rparr>)))"

text \<open>\<^verbatim>\<open>SpecialPolynomial.__mul__\<close> with a polynomial operand.\<close>

definition mul_poly :: "SpecialPolynomial \<Rightarrow> SpecialPolynomial \<Rightarrow> py_error + SpecialPolynomial" where
  "mul_poly p other =
     bind_res (SpecialPolynomial_init (n_vars p)) (\<lambda>result.
       if n_vars p \<noteq> n_vars other then Inl (AssertionError ''different n_vars!'')
       else
         fold_res (\<lambda>term result.
           bind_res (get_term other term) (\<lambda>val.
             if val \<noteq> 0 then
               bind_res (mul_monomial p term) (\<lambda>temp.
                 bind_res (mul_int temp val) (\<lambda>temp.
                   add result temp))
             else Inr result))
           (all_terms (n_vars p)) result)"

text \<open>
  \<^verbatim>\<open>evaluate\<close> at a list of polynomials. The source also accepts a list of integers; an empty
  list counts as one, and the result is then an integer (\<open>Inl\<close>), not a polynomial.
\<close>

definition evaluate ::
  "SpecialPolynomial \<Rightarrow> SpecialPolynomial list \<Rightarrow> py_error + (int + SpecialPolynomial)" where
  "evaluate p xval =
     (if int (length xval) \<noteq> n_vars p then Inl (AssertionError ''wrong number of variables!'')
      else if xval = [] then Inr (Inl (weight_0 p mod 8))
      else if list_ex (\<lambda>q. n_vars q \<noteq> n_vars p) xval
        then Inl (AssertionError ''incompatible polynomials!'')
      else
        bind_res (SpecialPolynomial_init (n_vars p)) (\<lambda>result.
        bind_res (SpecialPolynomial_init (n_vars p)) (\<lambda>start0.
          let start = start0\<lparr>weight_0 := 1\<rparr> in
          bind_res
            (fold_res (\<lambda>term result.
               bind_res (get_term p term) (\<lambda>val.
                 if val \<noteq> 0 then
                   bind_res (map_res (py_getitem xval) term) (\<lambda>factors.
                     bind_res (fold_res (\<lambda>q acc. mul_poly acc q) factors start) (\<lambda>newterm.
                       bind_res (mul_int newterm val) (\<lambda>scaled.
                         add result scaled)))
                 else Inr result))
               (all_terms (n_vars p)) result)
            (\<lambda>r. Inr (Inr r)))))"

definition set_pj :: "SpecialPolynomial \<Rightarrow> int list \<Rightarrow> SpecialPolynomial outcome" where
  "set_pj p indices0 =
     (if list_ex (\<lambda>x. x < 0 \<or> x \<ge> n_vars p) indices0
        then Raise (AssertionError ''indices out of bounds!'') p
      else
        let indices = sort indices0;
            subsets_2 = combinations indices 2;
            subsets_3 = combinations indices 3;
            p0 = p\<lparr> weight_0 := 0,
                    weight_1 := replicate (nat (n_vars p)) 0,
                    weight_2 := replicate (nat (nc2 p)) 0,
                    weight_3 := replicate (nat (nc3 p)) 0 \<rparr>
        in and_then (and_then (for_each (\<lambda>j q. set_term q [j] 1) indices p0)
                       (for_each (\<lambda>j q. set_term q j 6) subsets_2))
             (for_each (\<lambda>j q. set_term q j 4) subsets_3))"

text \<open>The \<^verbatim>\<open>key\<close> property: \<^verbatim>\<open>str\<close> of a tuple of integers and tuples.\<close>

fun str_nat :: "nat \<Rightarrow> string" where
  "str_nat n =
     (if n < 10 then [char_of (48 + n)]
      else str_nat (n div 10) @ [char_of (48 + n mod 10)])"

definition str_int :: "int \<Rightarrow> string" where
  "str_int i = (if i < 0 then CHR ''-'' # str_nat (nat (- i)) else str_nat (nat i))"

fun join_comma :: "string list \<Rightarrow> string" where
  "join_comma [] = []"
| "join_comma [x] = x"
| "join_comma (x # y # ys) = x @ '', '' @ join_comma (y # ys)"

text \<open>\<^verbatim>\<open>repr\<close> of a tuple, given the \<^verbatim>\<open>repr\<close> of its items: a one-element tuple ends in a comma.\<close>

definition repr_tuple :: "string list \<Rightarrow> string" where
  "repr_tuple items =
     (case items of
        [x] \<Rightarrow> ''('' @ x @ '',)''
      | _ \<Rightarrow> ''('' @ join_comma items @ '')'')"

text \<open>\<^verbatim>\<open>repr\<close> of a string without quotes or backslashes.\<close>

definition repr_str :: "string \<Rightarrow> string" where
  "repr_str s = [CHR 0x27] @ s @ [CHR 0x27]"

definition poly_key :: "SpecialPolynomial \<Rightarrow> string" where
  "poly_key p =
     repr_tuple [str_int (weight_0 p),
                 repr_tuple (map str_int (weight_1 p)),
                 repr_tuple (map str_int (weight_2 p)),
                 repr_tuple (map str_int (weight_3 p))]"


section \<open>CNOTDihedral\<close>

record CNOTDihedral =
  num_qubits :: int
  poly :: SpecialPolynomial
  linear :: "int list list"
  shift :: "int list"

definition CNOTDihedral_init :: "int \<Rightarrow> py_error + CNOTDihedral" where
  "CNOTDihedral_init n =
     bind_res (SpecialPolynomial_init n) (\<lambda>p.
       Inr \<lparr> num_qubits = n, poly = p,
             linear = map (\<lambda>r. map (\<lambda>c. if r = c then 1 else 0) (py_range n)) (py_range n),
             shift = replicate (nat n) 0 \<rparr>)"

definition z2matmul :: "int \<Rightarrow> int list list \<Rightarrow> int list list \<Rightarrow> py_error + int list list" where
  "z2matmul n left right =
     fold_res (\<lambda>i. fold_res (\<lambda>j. fold_res (\<lambda>k prod.
         bind_res (py_getitem prod i) (\<lambda>prow.
         bind_res (py_getitem prow j) (\<lambda>pij.
         bind_res (py_getitem left i) (\<lambda>lrow.
         bind_res (py_getitem lrow k) (\<lambda>lik.
         bind_res (py_getitem right k) (\<lambda>rrow.
         bind_res (py_getitem rrow j) (\<lambda>rkj.
         bind_res (py_setitem prow j ((pij + lik * rkj) mod 2)) (\<lambda>prow'.
         py_setitem prod i prow'))))))))
       (py_range n)) (py_range n)) (py_range n)
       (replicate (nat n) (replicate (nat n) 0))"

definition z2matvecmul :: "int \<Rightarrow> int list list \<Rightarrow> int list \<Rightarrow> py_error + int list" where
  "z2matvecmul n mat vec =
     fold_res (\<lambda>i. fold_res (\<lambda>j prod.
         bind_res (py_getitem prod i) (\<lambda>pi.
         bind_res (py_getitem mat i) (\<lambda>mrow.
         bind_res (py_getitem mrow j) (\<lambda>mij.
         bind_res (py_getitem vec j) (\<lambda>vj.
         py_setitem prod i ((pi + mij * vj) mod 2))))))
       (py_range n)) (py_range n)
       (replicate (nat n) 0)"

text \<open>
  The loop of \<^verbatim>\<open>__mul__\<close> and \<^verbatim>\<open>__rmul__\<close> that builds the substituted variables: the support
  is read from the rows of \<open>lin\<close>, the negation is decided by \<open>sh\<close>.
\<close>

definition new_var :: "int \<Rightarrow> int list list \<Rightarrow> int list \<Rightarrow> int \<Rightarrow> py_error + SpecialPolynomial" where
  "new_var n lin sh i =
     bind_res (py_getitem lin i) (\<lambda>row.
     bind_res (SpecialPolynomial_init n) (\<lambda>p0.
     bind_res (outcome_res (set_pj p0 (support_of row))) (\<lambda>p.
     bind_res (py_getitem sh i) (\<lambda>s.
       if s = 1 then
         bind_res (mul_int p (- 1)) (\<lambda>q. Inr (q\<lparr>weight_0 := (weight_0 q + 1) mod 8\<rparr>))
       else Inr p))))"

definition add_evaluated ::
  "SpecialPolynomial \<Rightarrow> int + SpecialPolynomial \<Rightarrow> py_error + SpecialPolynomial" where
  "add_evaluated p v =
     (case v of Inl _ \<Rightarrow> Inl (AssertionError ''other isn't poly!'') | Inr q \<Rightarrow> add p q)"

text \<open>\<^verbatim>\<open>CNOTDihedral.__mul__\<close>: \<^verbatim>\<open>self * other\<close>.\<close>

definition mul :: "CNOTDihedral \<Rightarrow> CNOTDihedral \<Rightarrow> py_error + CNOTDihedral" where
  "mul self other =
     (if num_qubits self \<noteq> num_qubits other then Inl (AssertionError ''not same num_qubits!'')
      else
        let n = num_qubits self in
        bind_res (CNOTDihedral_init n) (\<lambda>result.
        bind_res (z2matvecmul n (linear self) (shift other)) (\<lambda>mv.
        let new_shift = map (\<lambda>(x, y). (x + y) mod 2) (zip mv (shift self)) in
        bind_res (z2matmul n (linear self) (linear other)) (\<lambda>new_linear.
        bind_res (map_res (new_var n (linear other) (shift other)) (py_range n)) (\<lambda>new_vars.
        bind_res (evaluate (poly self) new_vars) (\<lambda>ev.
        bind_res (add_evaluated (poly other) ev) (\<lambda>new_poly.
          Inr (result\<lparr>shift := new_shift, linear := new_linear, poly := new_poly\<rparr>))))))))"

text \<open>\<^verbatim>\<open>CNOTDihedral.__rmul__\<close>: \<^verbatim>\<open>other * self\<close>.\<close>

definition rmul :: "CNOTDihedral \<Rightarrow> CNOTDihedral \<Rightarrow> py_error + CNOTDihedral" where
  "rmul self other =
     (if num_qubits self \<noteq> num_qubits other then Inl (AssertionError ''not same num_qubits!'')
      else
        let n = num_qubits self in
        bind_res (CNOTDihedral_init n) (\<lambda>result.
        bind_res (z2matvecmul n (linear other) (shift self)) (\<lambda>mv.
        let new_shift = map (\<lambda>(x, y). (x + y) mod 2) (zip mv (shift other)) in
        bind_res (z2matmul n (linear other) (linear self)) (\<lambda>new_linear.
        bind_res (map_res (new_var n (linear self) (shift other)) (py_range n)) (\<lambda>new_vars.
        bind_res (evaluate (poly other) new_vars) (\<lambda>ev.
        bind_res (add_evaluated (poly self) ev) (\<lambda>new_poly.
          Inr (result\<lparr>shift := new_shift, linear := new_linear, poly := new_poly\<rparr>))))))))"

definition key :: "CNOTDihedral \<Rightarrow> string" where
  "key e =
     repr_tuple [repr_str (poly_key (poly e)),
                 repr_tuple (map (\<lambda>row. repr_tuple (map str_int row)) (linear e)),
                 repr_tuple (map str_int (shift e))]"

definition cnot :: "CNOTDihedral \<Rightarrow> int \<Rightarrow> int \<Rightarrow> CNOTDihedral outcome" where
  "cnot e i j =
     (if \<not> i \<ge> 0 then Raise (AssertionError ''i negative!'') e
      else if \<not> j \<ge> 0 then Raise (AssertionError ''j negative!'') e
      else if \<not> i < num_qubits e then Raise (AssertionError ''i too big!'') e
      else if \<not> j < num_qubits e then Raise (AssertionError ''j too big!'') e
      else if \<not> i \<noteq> j then Raise (AssertionError ''i == j!'') e
      else
        case bind_res (map_res (\<lambda>k.
                 bind_res (py_getitem (linear e) i) (\<lambda>ri.
                 bind_res (py_getitem ri k) (\<lambda>a.
                 bind_res (py_getitem (linear e) j) (\<lambda>rj.
                 bind_res (py_getitem rj k) (\<lambda>b. Inr ((a + b) mod 2))))))
               (py_range (num_qubits e)))
               (\<lambda>row. py_setitem (linear e) j row) of
          Inl x \<Rightarrow> Raise x e
        | Inr lin \<Rightarrow>
            let e1 = e\<lparr>linear := lin\<rparr> in
            (case bind_res (py_getitem (shift e1) i) (\<lambda>a.
                  bind_res (py_getitem (shift e1) j) (\<lambda>b.
                  py_setitem (shift e1) j ((a + b) mod 2))) of
               Inl x \<Rightarrow> Raise x e1
             | Inr sh \<Rightarrow> Ok (e1\<lparr>shift := sh\<rparr>)))"

text \<open>One pass of the loops of \<^verbatim>\<open>phase\<close>: read a term, write it back increased.\<close>

definition add_to_term :: "int \<Rightarrow> int list \<Rightarrow> SpecialPolynomial \<Rightarrow> SpecialPolynomial outcome" where
  "add_to_term d term p =
     (case get_term p term of
        Inl x \<Rightarrow> Raise x p
      | Inr val \<Rightarrow> set_term p term ((val + d) mod 8))"

definition on_poly :: "CNOTDihedral \<Rightarrow> SpecialPolynomial outcome \<Rightarrow> CNOTDihedral outcome" where
  "on_poly e r = (case r of Ok p \<Rightarrow> Ok (e\<lparr>poly := p\<rparr>) | Raise x p \<Rightarrow> Raise x (e\<lparr>poly := p\<rparr>))"

definition phase :: "CNOTDihedral \<Rightarrow> int \<Rightarrow> int \<Rightarrow> CNOTDihedral outcome" where
  "phase e k0 i =
     (if \<not> i \<ge> 0 then Raise (AssertionError ''i negative!'') e
      else if \<not> i < num_qubits e then Raise (AssertionError ''i too big!'') e
      else
        case py_getitem (shift e) i of
          Inl x \<Rightarrow> Raise x e
        | Inr s \<Rightarrow>
            let k = (if s = 1 then (7 * k0) mod 8 else k0) in
            (case py_getitem (linear e) i of
               Inl x \<Rightarrow> Raise x e
             | Inr row \<Rightarrow>
                 let support = support_of row;
                     subsets_2 = combinations support 2;
                     subsets_3 = combinations support 3
                 in on_poly e
                      (and_then (and_then
                         (for_each (\<lambda>j. add_to_term k [j]) support (poly e))
                         (for_each (add_to_term (- 2 * k)) subsets_2))
                         (for_each (add_to_term (4 * k)) subsets_3))))"

definition flip :: "CNOTDihedral \<Rightarrow> int \<Rightarrow> CNOTDihedral outcome" where
  "flip e i =
     (if \<not> i \<ge> 0 then Raise (AssertionError ''i negative!'') e
      else if \<not> i < num_qubits e then Raise (AssertionError ''i too big!'') e
      else
        case bind_res (py_getitem (shift e) i) (\<lambda>a. py_setitem (shift e) i ((a + 1) mod 2)) of
          Inl x \<Rightarrow> Raise x e
        | Inr sh \<Rightarrow> Ok (e\<lparr>shift := sh\<rparr>))"



section \<open>Enumeration with no CNOT gate\<close>

text \<open>The entries of the gate lists of the enumeration: \<^verbatim>\<open>("u1", t, j)\<close>, \<^verbatim>\<open>("x", j)\<close>.\<close>

datatype gate = U1_gate int int | X_gate int | CX_gate int int

text \<open>
  The body of the inner loop of \<^verbatim>\<open>make_dict_0\<close>, for qubit \<open>j\<close>: the state is the element, the
  gate list and the number still to be decoded.
\<close>

definition dict_0_step ::
  "int \<Rightarrow> CNOTDihedral \<times> gate list \<times> int \<Rightarrow> py_error + (CNOTDihedral \<times> gate list \<times> int)" where
  "dict_0_step j st =
     (case st of (elem, circ, num) \<Rightarrow>
        let xpower = py_int (of_int (num mod 2));
            tpower = py_int (py_fmod (of_int (num - num mod 2) / 2) 8)
        in
        bind_res (if tpower > 0
                  then bind_res (outcome_res (phase elem tpower j))
                         (\<lambda>e. Inr (e, circ @ [U1_gate tpower j]))
                  else Inr (elem, circ)) (\<lambda>(elem1, circ1).
        bind_res (if xpower = 1
                  then bind_res (outcome_res (flip elem1 j))
                         (\<lambda>e. Inr (e, circ1 @ [X_gate j]))
                  else Inr (elem1, circ1)) (\<lambda>(elem2, circ2).
          Inr (elem2, circ2, py_int (of_int (num - num mod 16) / 16)))))"

definition dict_0_entry :: "int \<Rightarrow> int \<Rightarrow> py_error + (CNOTDihedral \<times> gate list)" where
  "dict_0_entry n i =
     bind_res (CNOTDihedral_init n) (\<lambda>elem.
     bind_res (fold_res dict_0_step (py_range n) (elem, [], i)) (\<lambda>(elem', circ, num).
       Inr (elem', circ)))"

text \<open>
  The dictionary is an association list in insertion order; \<^verbatim>\<open>obj[k] = v\<close> replaces the value
  of a key already there and appends a new key.
\<close>

fun dict_set :: "'k \<Rightarrow> 'v \<Rightarrow> ('k \<times> 'v) list \<Rightarrow> ('k \<times> 'v) list" where
  "dict_set k v [] = [(k, v)]"
| "dict_set k v ((k', v') # kvs) =
     (if k' = k then (k, v) # kvs else (k', v') # dict_set k v kvs)"

definition make_dict_0 :: "int \<Rightarrow> py_error + (string \<times> (CNOTDihedral \<times> gate list)) list" where
  "make_dict_0 n =
     (if \<not> n \<ge> 1 then Inl (AssertionError ''num_qubits too small!'')
      else
        fold_res (\<lambda>i obj.
          bind_res (dict_0_entry n i) (\<lambda>(elem, circ).
            Inr (dict_set (key elem) (elem, circ) obj)))
          (py_range (16 ^ nat n)) [])"


section \<open>Circuits\<close>

text \<open>
  An instruction of a circuit: its name, its parameters and the positions of its qubits. The
  angle of a \<^verbatim>\<open>u1\<close> gate is kept in units of \<open>\<pi>/4\<close>, as an exact rational: \<^verbatim>\<open>l0 * np.pi / 4\<close>
  is stored as \<open>l0\<close>, and \<^verbatim>\<open>int(4 * theta / np.pi)\<close> is the truncation of that number. The
  rounding of the two float operations is not modelled.
\<close>

record instr =
  name :: string
  params :: "rat list"
  qregs :: "int list"

type_synonym circuit = "instr list"

definition u1 :: "rat \<Rightarrow> int \<Rightarrow> circuit \<Rightarrow> circuit" where
  "u1 t q c = c @ [\<lparr>name = ''u1'', params = [t], qregs = [q]\<rparr>]"

definition x_gate :: "int \<Rightarrow> circuit \<Rightarrow> circuit" where
  "x_gate q c = c @ [\<lparr>name = ''x'', params = [], qregs = [q]\<rparr>]"

definition id_gate :: "int \<Rightarrow> circuit \<Rightarrow> circuit" where
  "id_gate q c = c @ [\<lparr>name = ''id'', params = [], qregs = [q]\<rparr>]"

definition cx :: "int \<Rightarrow> int \<Rightarrow> circuit \<Rightarrow> circuit" where
  "cx a b c = c @ [\<lparr>name = ''cx'', params = [], qregs = [a, b]\<rparr>]"

text \<open>
  One pass of the loop of \<^verbatim>\<open>append_circuit\<close>. \<open>gate_name\<close> is the name of the instruction that
  \<^verbatim>\<open>circuit.to_instruction()\<close> returns, which is the name of the circuit; it appears in the
  message of the \<^verbatim>\<open>QiskitError\<close>.
\<close>

definition append_instr ::
  "string \<Rightarrow> int list \<Rightarrow> instr \<Rightarrow> CNOTDihedral \<Rightarrow> CNOTDihedral outcome" where
  "append_instr gate_name qargs ins elem =
     (case map_res (py_getitem qargs) (qregs ins) of
        Inl x \<Rightarrow> Raise x elem
      | Inr new_qubits \<Rightarrow>
          if name ins = ''x'' then
            (case py_getitem new_qubits 0 of
               Inl x \<Rightarrow> Raise x elem | Inr q \<Rightarrow> flip elem q)
          else if name ins = ''u1'' then
            (case bind_res (py_getitem (params ins) 0) (\<lambda>t.
                  bind_res (py_getitem new_qubits 0) (\<lambda>q. Inr (py_int t, q))) of
               Inl x \<Rightarrow> Raise x elem | Inr (k, q) \<Rightarrow> phase elem k q)
          else if name ins = ''cx'' then
            (case bind_res (py_getitem new_qubits 0) (\<lambda>a.
                  bind_res (py_getitem new_qubits 1) (\<lambda>b. Inr (a, b))) of
               Inl x \<Rightarrow> Raise x elem | Inr (a, b) \<Rightarrow> cnot elem a b)
          else if name ins = ''id'' then Ok elem
          else Raise (QiskitError (''Not a CNOT-Dihedral gate: '' @ gate_name)) elem)"

text \<open>
  \<^verbatim>\<open>append_circuit(elem, circuit, qargs)\<close>: the circuit is given by its name and its list of
  instructions.
\<close>

definition append_circuit ::
  "CNOTDihedral \<Rightarrow> string \<Rightarrow> circuit \<Rightarrow> int list option \<Rightarrow> CNOTDihedral outcome" where
  "append_circuit elem gate_name circ qargs0 =
     (let qargs = (case qargs0 of None \<Rightarrow> py_range (num_qubits elem) | Some qs \<Rightarrow> qs)
      in for_each (append_instr gate_name qargs) circ elem)"

text \<open>
  The gates that every branch of the two-qubit synthesis emits first: the two phase gates and
  the two bit flips.
\<close>

definition local_gates :: "rat \<Rightarrow> int \<Rightarrow> rat \<Rightarrow> int \<Rightarrow> circuit \<Rightarrow> circuit" where
  "local_gates l0 k0 l1 k1 c =
     (let c1 = (if l0 > 0 then u1 l0 0 c else c);
          c2 = (if k0 = 1 then x_gate 0 c1 else c1);
          c3 = (if l1 > 0 then u1 l1 1 c2 else c2);
          c4 = (if k1 = 1 then x_gate 1 c3 else c3)
      in c4)"

text \<open>\<^verbatim>\<open>[a, b] = xs\<close>.\<close>

definition unpack2 :: "'a list \<Rightarrow> py_error + ('a \<times> 'a)" where
  "unpack2 xs = (case xs of [a, b] \<Rightarrow> Inr (a, b) | _ \<Rightarrow> Inl ValueError)"

text \<open>The numbers \<open>m\<close>, \<open>l0\<close>, \<open>l1\<close> that the five classes with a CNOT compute from \<open>k0\<close>, \<open>k1\<close>.\<close>

definition cx_class_params ::
  "int \<Rightarrow> int \<Rightarrow> int list \<Rightarrow> int list \<Rightarrow> py_error + (rat \<times> rat \<times> rat)" where
  "cx_class_params k0 k1 w1 w2 =
     bind_res (py_getitem w2 0) (\<lambda>q.
     bind_res (py_getitem w1 0) (\<lambda>a.
     bind_res (py_getitem w1 1) (\<lambda>b.
       if k0 = k1 then
         (let m = py_fmod (of_int (8 - q) / 2) 4
          in Inr (m, py_fmod (of_int a - m) 8, py_fmod (of_int b - m) 8))
       else
         (let m = py_fmod (of_int q / 2) 4
          in Inr (m, py_fmod (of_int a + m) 8, py_fmod (of_int b + m) 8)))))"

definition decompose_diagonal :: "CNOTDihedral \<Rightarrow> circuit \<Rightarrow> py_error + circuit" where
  "decompose_diagonal elem c0 =
     (let w1 = weight_1 (poly elem); w2 = weight_2 (poly elem) in
      bind_res (unpack2 (shift elem)) (\<lambda>(k0, k1).
      bind_res (if w2 = [0] then
                  bind_res (unpack2 w1) (\<lambda>(l0, l1).
                    let c = local_gates (of_int l0) k0 (of_int l1) k1 c0 in
                    Inr (if l0 = 0 \<and> l1 = 0 \<and> k0 = 0 \<and> k1 = 0
                         then id_gate 1 (id_gate 0 c) else c))
                else Inr c0) (\<lambda>c1.
      bind_res (if (w2 = [2] \<and> k0 = k1) \<or> (w2 = [6] \<and> k0 \<noteq> k1) then
                  bind_res (py_getitem w1 0) (\<lambda>a.
                  bind_res (py_getitem w1 1) (\<lambda>b.
                    let l0 = (a - 2 * k1 - 4 * k0 * k1) mod 8;
                        l1 = (b - 2 * k0 - 4 * k0 * k1) mod 8;
                        c = local_gates (of_int l0) k0 (of_int l1) k1 c1
                    in Inr (cx 0 1 (u1 7 1 (cx 0 1 (u1 1 1 (u1 1 0 c)))))))
                else Inr c1) (\<lambda>c2.
      bind_res (if (w2 = [6] \<and> k0 = k1) \<or> (w2 = [2] \<and> k0 \<noteq> k1) then
                  bind_res (py_getitem w1 0) (\<lambda>a.
                  bind_res (py_getitem w1 1) (\<lambda>b.
                    let l0 = (a - 6 * k1 - 4 * k0 * k1) mod 8;
                        l1 = (b - 6 * k0 - 4 * k0 * k1) mod 8;
                        c = local_gates (of_int l0) k0 (of_int l1) k1 c2
                    in Inr (cx 0 1 (u1 1 1 (cx 0 1 (u1 7 1 (u1 7 0 c)))))))
                else Inr c2) (\<lambda>c3.
      if w2 = [4] then
        bind_res (py_getitem w1 0) (\<lambda>a.
        bind_res (py_getitem w1 1) (\<lambda>b.
          let l0 = (a - 4 * k1) mod 8;
              l1 = (b - 4 * k0) mod 8;
              c = local_gates (of_int l0) k0 (of_int l1) k1 c3
          in Inr (u1 7 0 (u1 7 1 (cx 1 0 (u1 2 0 (cx 1 0 (u1 7 0 (u1 7 1 c)))))))))
      else Inr c3)))))"

text \<open>
  The five classes with a CNOT differ in how \<open>k0\<close>, \<open>k1\<close> are read from the shift and in the
  gates that follow the local ones; \<open>tail m c\<close> appends those gates.
\<close>

definition decompose_cx_class ::
  "CNOTDihedral \<Rightarrow> (int list \<Rightarrow> py_error + (int \<times> int)) \<Rightarrow> (rat \<Rightarrow> circuit \<Rightarrow> circuit)
     \<Rightarrow> circuit \<Rightarrow> py_error + circuit" where
  "decompose_cx_class elem read_k tail c0 =
     bind_res (read_k (shift elem)) (\<lambda>(k0, k1).
     bind_res (cx_class_params k0 k1 (weight_1 (poly elem)) (weight_2 (poly elem))) (\<lambda>(m, l0, l1).
       Inr (tail m (local_gates l0 k0 l1 k1 c0))))"

definition decompose_CNOTDihedral :: "CNOTDihedral \<Rightarrow> py_error + circuit" where
  "decompose_CNOTDihedral elem =
     (if \<not> num_qubits elem < 3
        then Inl (AssertionError
               ''cannot decompose a CNOT-Dihedral element with more than 2 qubits'')
      else if num_qubits elem = 1 then
        (if weight_0 (poly elem) \<noteq> 0 then Inl (AssertionError [])
         else if linear elem \<noteq> [[1]] then Inl (AssertionError [])
         else
           bind_res (py_getitem (weight_1 (poly elem)) 0) (\<lambda>l0.
           bind_res (py_getitem (shift elem) 0) (\<lambda>k0.
             let c1 = (if l0 > 0 then u1 (of_int l0) 0 [] else []);
                 c2 = (if k0 = 1 then x_gate 0 c1 else c1);
                 c3 = (if l0 = 0 \<and> k0 = 0 then id_gate 0 c2 else c2)
             in Inr c3)))
      else if weight_0 (poly elem) \<noteq> 0 then Inl (AssertionError [])
      else
        let lin = linear elem in
        bind_res (if lin = [[1, 0], [0, 1]] then decompose_diagonal elem [] else Inr []) (\<lambda>c1.
        bind_res (if lin = [[1, 0], [1, 1]] then
                    decompose_cx_class elem
                      (\<lambda>sh. bind_res (py_getitem sh 0) (\<lambda>k0.
                             bind_res (py_getitem sh 1) (\<lambda>s1. Inr (k0, (s1 + k0) mod 2))))
                      (\<lambda>m c. let c' = cx 0 1 c in if m > 0 then u1 m 1 c' else c') c1
                  else Inr c1) (\<lambda>c2.
        bind_res (if lin = [[1, 1], [0, 1]] then
                    decompose_cx_class elem
                      (\<lambda>sh. bind_res (py_getitem sh 1) (\<lambda>k1.
                             bind_res (py_getitem sh 0) (\<lambda>s0. Inr ((s0 + k1) mod 2, k1))))
                      (\<lambda>m c. let c' = cx 1 0 c in if m > 0 then u1 m 0 c' else c') c2
                  else Inr c2) (\<lambda>c3.
        bind_res (if lin = [[0, 1], [1, 1]] then
                    decompose_cx_class elem
                      (\<lambda>sh. bind_res (py_getitem sh 0) (\<lambda>k1.
                             bind_res (py_getitem sh 1) (\<lambda>s1. Inr ((s1 + k1) mod 2, k1))))
                      (\<lambda>m c. let c' = cx 1 0 (cx 0 1 c) in if m > 0 then u1 m 1 c' else c') c3
                  else Inr c3) (\<lambda>c4.
        bind_res (if lin = [[1, 1], [1, 0]] then
                    decompose_cx_class elem
                      (\<lambda>sh. bind_res (py_getitem sh 1) (\<lambda>k0.
                             bind_res (py_getitem sh 0) (\<lambda>s0. Inr (k0, (s0 + k0) mod 2))))
                      (\<lambda>m c. let c' = cx 0 1 (cx 1 0 c) in if m > 0 then u1 m 0 c' else c') c4
                  else Inr c4) (\<lambda>c5.
        if lin = [[0, 1], [1, 0]] then
          decompose_cx_class elem
            (\<lambda>sh. bind_res (py_getitem sh 1) (\<lambda>k0.
                   bind_res (py_getitem sh 0) (\<lambda>k1. Inr (k0, k1))))
            (\<lambda>m c. let c' = cx 1 0 (cx 0 1 c) in
                    cx 0 1 (if m > 0 then u1 m 1 c' else c')) c5
        else Inr c5))))))"



section \<open>Well-formed states\<close>

text \<open>
  The states the data model allows: the array lengths the constructor fixes, coefficients in
  \<open>Z\<^sub>8\<close>, a square matrix and a vector over \<open>Z\<^sub>2\<close>.
\<close>

definition wf_poly :: "SpecialPolynomial \<Rightarrow> bool" where
  "wf_poly p \<longleftrightarrow>
     1 \<le> n_vars p
     \<and> nc2 p = py_int (of_int (n_vars p * (n_vars p - 1)) / 2)
     \<and> nc3 p = py_int (of_int (n_vars p * (n_vars p - 1) * (n_vars p - 2)) / 6)
     \<and> 0 \<le> weight_0 p \<and> weight_0 p < 8
     \<and> int (length (weight_1 p)) = n_vars p
     \<and> int (length (weight_2 p)) = nc2 p
     \<and> int (length (weight_3 p)) = nc3 p
     \<and> list_all (\<lambda>c. 0 \<le> c \<and> c < 8) (weight_1 p)
     \<and> list_all (\<lambda>c. 0 \<le> c \<and> c < 8) (weight_2 p)
     \<and> list_all (\<lambda>c. 0 \<le> c \<and> c < 8) (weight_3 p)"

definition is_z2_vector :: "int \<Rightarrow> int list \<Rightarrow> bool" where
  "is_z2_vector n v \<longleftrightarrow> int (length v) = n \<and> list_all (\<lambda>x. x = 0 \<or> x = 1) v"

definition is_z2_matrix :: "int \<Rightarrow> int list list \<Rightarrow> bool" where
  "is_z2_matrix n M \<longleftrightarrow> int (length M) = n \<and> list_all (is_z2_vector n) M"

definition wf_elem :: "CNOTDihedral \<Rightarrow> bool" where
  "wf_elem e \<longleftrightarrow>
     n_vars (poly e) = num_qubits e \<and> wf_poly (poly e)
     \<and> is_z2_matrix (num_qubits e) (linear e)
     \<and> is_z2_vector (num_qubits e) (shift e)"

text \<open>The identity element on \<open>n\<close> qubits, for \<open>n \<ge> 1\<close>: what the constructor returns.\<close>

definition identity_matrix :: "int \<Rightarrow> int list list" where
  "identity_matrix n = map (\<lambda>r. map (\<lambda>c. if r = c then 1 else 0) (py_range n)) (py_range n)"

definition identity_elem :: "int \<Rightarrow> CNOTDihedral" where
  "identity_elem n =
     \<lparr> num_qubits = n, poly = zero_poly n, linear = identity_matrix n,
       shift = replicate (nat n) 0 \<rparr>"

text \<open>
  Two elements used below. On five qubits, three CNOT gates onto qubit 1 make row 1 of the
  linear part \<open>x\<^sub>1 + x\<^sub>2 + x\<^sub>3 + x\<^sub>4\<close>; on six qubits, two CNOT gates onto qubit 2 make row 2
  \<open>x\<^sub>2 + x\<^sub>4 + x\<^sub>5\<close>.
\<close>

definition row1_full_5 :: CNOTDihedral where
  "row1_full_5 = state (cnot (state (cnot (state (cnot (identity_elem 5) 2 1)) 3 1)) 4 1)"

definition row2_full_6 :: CNOTDihedral where
  "row2_full_6 = state (cnot (state (cnot (identity_elem 6) 4 2)) 5 2)"



section \<open>Auxiliary notions for the proofs\<close>

text \<open>A two-qubit element written out, with constant term \<open>c\<close>, linear coefficients \<open>a\<close>, \<open>b\<close>
  and quadratic coefficient \<open>w\<close>.\<close>

definition elem2 :: "int \<Rightarrow> int \<Rightarrow> int \<Rightarrow> int \<Rightarrow> int list list \<Rightarrow> int \<Rightarrow> int \<Rightarrow> CNOTDihedral" where
 "elem2 c a b w lin s0 s1 = \<lparr>num_qubits = 2, poly = \<lparr>n_vars = 2, nc2 = 1, nc3 = 0, weight_0 = c, weight_1 = [a, b], weight_2 = [w], weight_3 = []\<rparr>, linear = lin, shift = [s0, s1]\<rparr>"

text \<open>The power that \<^verbatim>\<open>phase\<close> uses after its test of the shift bit \<open>s\<close>.\<close>

definition conj_k :: "int \<Rightarrow> int \<Rightarrow> int" where
  "conj_k s k = (if s = 1 then (7 * k) mod 8 else k)"

text \<open>\<^verbatim>\<open>append_circuit\<close> on two qubits with the default \<^verbatim>\<open>qargs\<close>, which are \<open>[0, 1]\<close>.\<close>

definition run2 :: "string \<Rightarrow> circuit \<Rightarrow> CNOTDihedral \<Rightarrow> CNOTDihedral outcome" where
  "run2 nm c e = for_each (append_instr nm [0, 1]) c e"

text \<open>The effect of a gate that the synthesis emits only under a condition.\<close>

definition phase_opt :: "rat \<Rightarrow> int \<Rightarrow> CNOTDihedral \<Rightarrow> CNOTDihedral outcome" where
  "phase_opt l q e = (if 0 < l then phase e (py_int l) q else Ok e)"

definition flip_opt :: "int \<Rightarrow> int \<Rightarrow> CNOTDihedral \<Rightarrow> CNOTDihedral outcome" where
  "flip_opt k q e = (if k = 1 then flip e q else Ok e)"

text \<open>
  A matrix over \<open>Z\<^sub>2\<close> is invertible when it has a two-sided inverse for the module's own matrix
  product; over the field \<open>Z\<^sub>2\<close> this is the same as a determinant that is odd.
\<close>

definition invertible_z2 :: "int \<Rightarrow> int list list \<Rightarrow> bool" where
  "invertible_z2 n M \<longleftrightarrow>
     (\<exists>N. is_z2_matrix n N \<and> z2matmul n M N = Inr (identity_matrix n)
          \<and> z2matmul n N M = Inr (identity_matrix n))"

text \<open>
  A one-qubit element written out, with constant term \<open>c\<close>, linear coefficient \<open>a\<close>, the entry
  \<open>x\<close> of the linear part and shift bit \<open>s\<close>.
\<close>

definition elem1 :: "int \<Rightarrow> int \<Rightarrow> int \<Rightarrow> int \<Rightarrow> CNOTDihedral" where
  "elem1 c a x s = \<lparr>num_qubits = 1, poly = \<lparr>n_vars = 1, nc2 = 0, nc3 = 0, weight_0 = c,
     weight_1 = [a], weight_2 = [], weight_3 = []\<rparr>, linear = [[x]], shift = [s]\<rparr>"

text \<open>
  Matrices as lists of rows, for the proofs: \<open>shaped n M\<close> says that \<open>M\<close> has \<open>n\<close> rows of length \<open>n\<close>.
\<close>

definition shaped :: "nat \<Rightarrow> 'a list list \<Rightarrow> bool" where
  "shaped n M \<longleftrightarrow> length M = n \<and> (\<forall>r \<in> set M. length r = n)"

text \<open>
  The entries of a product over \<open>Z\<^sub>2\<close>, and the product matrix.
\<close>

definition z2dot :: "nat \<Rightarrow> int list list \<Rightarrow> int list list \<Rightarrow> nat \<Rightarrow> nat \<Rightarrow> int" where
  "z2dot m A B i j = (\<Sum>k<m. A ! i ! k * B ! k ! j) mod 2"

definition mm :: "nat \<Rightarrow> int list list \<Rightarrow> int list list \<Rightarrow> int list list" where
  "mm n A B = map (\<lambda>i. map (\<lambda>j. z2dot n A B i j) [0..<n]) [0..<n]"

text \<open>
  The body of the innermost loop of \<^verbatim>\<open>_z2matmul\<close>.
\<close>

definition z2_step :: "int list list \<Rightarrow> int list list \<Rightarrow> int \<Rightarrow> int \<Rightarrow> int \<Rightarrow> int list list
    \<Rightarrow> py_error + int list list" where
  "z2_step left right i j k acc =
         bind_res (py_getitem acc i) (\<lambda>prow.
         bind_res (py_getitem prow j) (\<lambda>pij.
         bind_res (py_getitem left i) (\<lambda>lrow.
         bind_res (py_getitem lrow k) (\<lambda>lik.
         bind_res (py_getitem right k) (\<lambda>rrow.
         bind_res (py_getitem rrow j) (\<lambda>rkj.
         bind_res (py_setitem prow j ((pij + lik * rkj) mod 2)) (\<lambda>prow'.
         py_setitem acc i prow')))))))"

text \<open>
  The identity matrix and the matrices over \<open>Z\<^sub>2\<close>, indexed by natural numbers.
\<close>

definition idm :: "nat \<Rightarrow> int list list" where
  "idm n = map (\<lambda>r. map (\<lambda>c. if r = c then 1 else 0) [0..<n]) [0..<n]"

definition z2mat :: "nat \<Rightarrow> int list list \<Rightarrow> bool" where
  "z2mat n M \<longleftrightarrow> shaped n M \<and> (\<forall>i<n. \<forall>j<n. M ! i ! j = 0 \<or> M ! i ! j = 1)"

text \<open>
  The elementary matrix that adds row \<open>i\<close> to row \<open>j\<close>, and the row addition that \<^verbatim>\<open>cnot\<close> performs.
\<close>

definition elem_mat :: "nat \<Rightarrow> nat \<Rightarrow> nat \<Rightarrow> int list list" where
  "elem_mat n i j =
     map (\<lambda>r. map (\<lambda>c. if r = c \<or> (r = j \<and> c = i) then 1 else 0) [0..<n]) [0..<n]"

definition add_row :: "nat \<Rightarrow> nat \<Rightarrow> nat \<Rightarrow> int list list \<Rightarrow> int list list" where
  "add_row n i j M = M[j := map (\<lambda>k. (M ! i ! k + M ! j ! k) mod 2) [0..<n]]"

text \<open>
  The body of the inner loop of \<^verbatim>\<open>_z2matvecmul\<close>.
\<close>

definition z2_vec_step :: "int list list \<Rightarrow> int list \<Rightarrow> int \<Rightarrow> int \<Rightarrow> int list
    \<Rightarrow> py_error + int list" where
  "z2_vec_step mat vec i j acc =
         bind_res (py_getitem acc i) (\<lambda>pi.
         bind_res (py_getitem mat i) (\<lambda>mrow.
         bind_res (py_getitem mrow j) (\<lambda>mij.
         bind_res (py_getitem vec j) (\<lambda>vj.
         py_setitem acc i ((pi + mij * vj) mod 2)))))"

text \<open>
  The entries of a matrix-vector product over \<open>Z\<^sub>2\<close>.
\<close>

definition z2vdot :: "nat \<Rightarrow> int list list \<Rightarrow> int list \<Rightarrow> nat \<Rightarrow> int" where
  "z2vdot m A v i = (\<Sum>j<m. A ! i ! j * v ! j) mod 2"

text \<open>
  Composition as the documentation describes it. The shift of \<open>a * b\<close> is the product of
  \<open>a.linear\<close> with \<open>b.shift\<close>, added to \<open>a.shift\<close> modulo two.
\<close>

definition spec_shift :: "CNOTDihedral \<Rightarrow> CNOTDihedral \<Rightarrow> int list" where
  "spec_shift a b =
     map (\<lambda>i. (z2vdot (nat (num_qubits a)) (linear a) (shift b) i + shift a ! i) mod 2)
       [0..<nat (num_qubits a)]"

text \<open>
  The substituted variable for a row \<open>row\<close> and a shift bit \<open>s\<close>: the \<^verbatim>\<open>set_pj\<close> polynomial of the
  support of the row; when the shift bit is one it is negated (all coefficients times seven
  modulo eight) and one is added to its constant term.
\<close>

definition spec_substituted_var :: "int \<Rightarrow> int list \<Rightarrow> int \<Rightarrow> py_error + SpecialPolynomial" where
  "spec_substituted_var n row s =
     bind_res (SpecialPolynomial_init n) (\<lambda>p0.
     bind_res (outcome_res (set_pj p0 (support_of row))) (\<lambda>v.
       if s = 1 then
         bind_res (mul_int v 7) (\<lambda>q. Inr (q\<lparr>weight_0 := (weight_0 q + 1) mod 8\<rparr>))
       else Inr v))"

text \<open>
  The polynomial of \<open>a * b\<close>: the polynomial of \<open>a\<close> evaluated at the substituted variables,
  added to the polynomial of \<open>b\<close>. The rows that give the supports are those of \<open>lin\<close>.
\<close>

definition spec_compose_poly ::
  "CNOTDihedral \<Rightarrow> CNOTDihedral \<Rightarrow> int list list \<Rightarrow> py_error + SpecialPolynomial" where
  "spec_compose_poly a b lin =
     bind_res (map_res (\<lambda>i. spec_substituted_var (num_qubits a) (lin ! i) (shift b ! i))
                 [0..<nat (num_qubits a)]) (\<lambda>vs.
     bind_res (evaluate (poly a) vs) (\<lambda>ev. add_evaluated (poly b) ev))"

text \<open>
  The composed element, with the matrix product \<open>a.linear \<cdot> b.linear\<close> as its linear part.
\<close>

definition spec_compose ::
  "CNOTDihedral \<Rightarrow> CNOTDihedral \<Rightarrow> int list list \<Rightarrow> py_error + CNOTDihedral" where
  "spec_compose a b lin =
     bind_res (spec_compose_poly a b lin) (\<lambda>p.
       Inr \<lparr> num_qubits = num_qubits a, poly = p,
             linear = mm (nat (num_qubits a)) (linear a) (linear b),
             shift = spec_shift a b \<rparr>)"

section \<open>The term accessors\<close>

lemma SpecialPolynomial_init_zero_poly:
  "1 \<le> n \<Longrightarrow> SpecialPolynomial_init n = Inr (zero_poly n)"
  by (simp add: SpecialPolynomial_init_def zero_poly_def Let_def)

text \<open>
  C5. After \<^verbatim>\<open>set_term(L, v)\<close>, \<^verbatim>\<open>get_term(L)\<close> should return \<open>v mod 8\<close> and every other
  term should be unchanged, the offsets being in bounds and injective over valid index lists.
  The offset into the cubic array leaves the first index out of its second summand, so on five
  variables the terms \<open>x\<^sub>1x\<^sub>3x\<^sub>4\<close> and \<open>x\<^sub>2x\<^sub>3x\<^sub>4\<close> share slot 9 of \<^verbatim>\<open>weight_3\<close>: writing the first
  changes the second. On six variables the term \<open>x\<^sub>2x\<^sub>4x\<^sub>5\<close> is sent to offset 20 of an array of
  length 20, and both accessors raise \<^verbatim>\<open>IndexError\<close>.
\<close>

theorem cubic_offset_collision:
  "SpecialPolynomial_init 5 = Inr (zero_poly 5)
   \<and> check_indices 5 [1, 3, 4] = None \<and> check_indices 5 [2, 3, 4] = None
   \<and> get_term (zero_poly 5) [2, 3, 4] = Inr 0
   \<and> \<not> raised (set_term (zero_poly 5) [1, 3, 4] 1)
   \<and> get_term (state (set_term (zero_poly 5) [1, 3, 4] 1)) [2, 3, 4] = Inr 1
   \<and> offset_cubic 5 1 3 4 = 9 \<and> offset_cubic 5 2 3 4 = 9
   \<and> SpecialPolynomial_init 6 = Inr (zero_poly 6)
   \<and> check_indices 6 [2, 4, 5] = None
   \<and> length (weight_3 (zero_poly 6)) = 20
   \<and> offset_cubic 6 2 4 5 = 20
   \<and> get_term (zero_poly 6) [2, 4, 5] = Inl IndexError
   \<and> set_term (zero_poly 6) [2, 4, 5] 1 = Raise IndexError (zero_poly 6)"
  by code_simp


section \<open>Basic facts about the execution model\<close>

lemma bind_res_Inr:
  "bind_res r f = Inr y \<longleftrightarrow> (\<exists>v. r = Inr v \<and> f v = Inr y)"
  by (cases r) (auto simp: bind_res_def)

lemma bind_res_Inl:
  "bind_res r f = Inl x \<longleftrightarrow> (r = Inl x \<or> (\<exists>v. r = Inr v \<and> f v = Inl x))"
  by (cases r) (auto simp: bind_res_def)

lemma and_then_Ok [simp]: "and_then (Ok s) f = f s"
  by (simp add: and_then_def)

lemma and_then_Raise [simp]: "and_then (Raise x s) f = Raise x s"
  by (simp add: and_then_def)

lemma for_each_append:
  "for_each f (xs @ ys) s = and_then (for_each f xs s) (for_each f ys)"
proof (induction xs arbitrary: s)
  case Nil
  show ?case by simp
next
  case (Cons x xs)
  show ?case
    by (cases "f x s") (simp_all add: Cons.IH)
qed

lemma py_setitem_Inr:
  "py_setitem xs i v = Inr ys \<Longrightarrow> 0 \<le> i \<Longrightarrow> ys = xs[nat i := v] \<and> nat i < length xs"
  by (auto simp: py_setitem_def py_index_def Let_def split: if_splits)

lemma CNOTDihedral_init_identity_elem:
  "1 \<le> n \<Longrightarrow> CNOTDihedral_init n = Inr (identity_elem n)"
  by (simp add: CNOTDihedral_init_def SpecialPolynomial_init_zero_poly identity_elem_def
      identity_matrix_def bind_res_def)


section \<open>The generators: what they leave alone\<close>

lemma state_on_poly [simp]:
  "linear (state (on_poly e r)) = linear e"
  "shift (state (on_poly e r)) = shift e"
  "num_qubits (state (on_poly e r)) = num_qubits e"
  by (cases r; simp add: on_poly_def)+

lemma phase_frame:
  "linear (state (phase e k i)) = linear e \<and> shift (state (phase e k i)) = shift e
   \<and> num_qubits (state (phase e k i)) = num_qubits e"
  by (simp add: phase_def Let_def split: sum.splits)

lemma flip_frame:
  "poly (state (flip e i)) = poly e \<and> linear (state (flip e i)) = linear e
   \<and> num_qubits (state (flip e i)) = num_qubits e
   \<and> length (shift (state (flip e i))) = length (shift e)
   \<and> (\<forall>r. r \<noteq> nat i \<longrightarrow> shift (state (flip e i)) ! r = shift e ! r)"
  by (auto simp: flip_def bind_res_Inr split: sum.splits dest!: py_setitem_Inr)

lemma cnot_frame:
  "poly (state (cnot e i j)) = poly e
   \<and> num_qubits (state (cnot e i j)) = num_qubits e
   \<and> length (linear (state (cnot e i j))) = length (linear e)
   \<and> length (shift (state (cnot e i j))) = length (shift e)
   \<and> (\<forall>r. r \<noteq> nat j \<longrightarrow> linear (state (cnot e i j)) ! r = linear e ! r)
   \<and> (\<forall>r. r \<noteq> nat j \<longrightarrow> shift (state (cnot e i j)) ! r = shift e ! r)"
  by (auto simp: cnot_def Let_def bind_res_Inr split: sum.splits dest!: py_setitem_Inr)

text \<open>
  C10. Whether it returns or raises, \<^verbatim>\<open>cnot(i, j)\<close> leaves the polynomial, the qubit count,
  every row of \<open>linear\<close> other than row \<open>j\<close> and every entry of \<open>shift\<close> other than entry \<open>j\<close>
  as they were; \<^verbatim>\<open>phase(k, i)\<close> leaves \<open>linear\<close>, \<open>shift\<close> and the qubit count as they were;
  \<^verbatim>\<open>flip(i)\<close> leaves everything but entry \<open>i\<close> of \<open>shift\<close> as it was. The lists keep their
  lengths.
\<close>

theorem generators_frame:
  "poly (state (cnot e i j)) = poly e
   \<and> num_qubits (state (cnot e i j)) = num_qubits e
   \<and> length (linear (state (cnot e i j))) = length (linear e)
   \<and> length (shift (state (cnot e i j))) = length (shift e)
   \<and> (\<forall>r. r \<noteq> nat j \<longrightarrow> linear (state (cnot e i j)) ! r = linear e ! r)
   \<and> (\<forall>r. r \<noteq> nat j \<longrightarrow> shift (state (cnot e i j)) ! r = shift e ! r)
   \<and> linear (state (phase e k i)) = linear e
   \<and> shift (state (phase e k i)) = shift e
   \<and> num_qubits (state (phase e k i)) = num_qubits e
   \<and> poly (state (flip e i)) = poly e
   \<and> linear (state (flip e i)) = linear e
   \<and> num_qubits (state (flip e i)) = num_qubits e
   \<and> length (shift (state (flip e i))) = length (shift e)
   \<and> (\<forall>r. r \<noteq> nat i \<longrightarrow> shift (state (flip e i)) ! r = shift e ! r)"
  using cnot_frame [where e = e and i = i and j = j] phase_frame [where e = e and k = k and i = i] flip_frame [where e = e and i = i] by blast

theorem generators_frame_witness:
  "(1::nat) \<noteq> nat 0
   \<and> \<not> raised (cnot (identity_elem 2) 1 0)
   \<and> state (cnot (identity_elem 2) 1 0) \<noteq> identity_elem 2
   \<and> linear (state (cnot (identity_elem 2) 1 0)) ! 1 = linear (identity_elem 2) ! 1
   \<and> shift (state (cnot (identity_elem 2) 1 0)) ! 1 = shift (identity_elem 2) ! 1
   \<and> poly (state (cnot (identity_elem 2) 1 0)) = poly (identity_elem 2)
   \<and> \<not> raised (phase (identity_elem 2) 3 1)
   \<and> state (phase (identity_elem 2) 3 1) \<noteq> identity_elem 2
   \<and> linear (state (phase (identity_elem 2) 3 1)) = linear (identity_elem 2)
   \<and> shift (state (phase (identity_elem 2) 3 1)) = shift (identity_elem 2)
   \<and> (0::nat) \<noteq> nat 1
   \<and> \<not> raised (flip (identity_elem 2) 1)
   \<and> state (flip (identity_elem 2) 1) \<noteq> identity_elem 2
   \<and> shift (state (flip (identity_elem 2) 1)) ! 0 = shift (identity_elem 2) ! 0
   \<and> poly (state (flip (identity_elem 2) 1)) = poly (identity_elem 2)"
proof -
  have a: "(1::nat) \<noteq> nat 0" "(0::nat) \<noteq> nat 1"
    by simp_all
  have b: "\<not> raised (cnot (identity_elem 2) 1 0)"
    "state (cnot (identity_elem 2) 1 0) \<noteq> identity_elem 2"
    "\<not> raised (phase (identity_elem 2) 3 1)"
    "state (phase (identity_elem 2) 3 1) \<noteq> identity_elem 2"
    "\<not> raised (flip (identity_elem 2) 1)"
    "state (flip (identity_elem 2) 1) \<noteq> identity_elem 2"
    by code_simp+
  show ?thesis
    using a b generators_frame [where e = "identity_elem 2" and i = 1 and j = 0 and k = 3]
      generators_frame [where e = "identity_elem 2" and i = 1 and j = 1 and k = 3] by blast
qed


section \<open>The phase gate on five and six qubits\<close>

text \<open>
  C3. \<^verbatim>\<open>phase(k, qubit)\<close> should add \<open>4k\<close> to the term of every 3-subset of the support of the
  row. On the five-qubit element whose row 1 is \<open>x\<^sub>1 + x\<^sub>2 + x\<^sub>3 + x\<^sub>4\<close>, \<^verbatim>\<open>phase(1, 1)\<close> returns,
  the terms \<open>x\<^sub>1x\<^sub>2x\<^sub>3\<close> and \<open>x\<^sub>1x\<^sub>2x\<^sub>4\<close> read 4, and the terms \<open>x\<^sub>1x\<^sub>3x\<^sub>4\<close> and \<open>x\<^sub>2x\<^sub>3x\<^sub>4\<close> read 0:
  they share a slot of \<^verbatim>\<open>weight_3\<close>, which received \<open>4 + 4\<close>. On the six-qubit element whose
  row 2 is \<open>x\<^sub>2 + x\<^sub>4 + x\<^sub>5\<close>, \<^verbatim>\<open>phase(1, 2)\<close> raises \<^verbatim>\<open>IndexError\<close> at the term \<open>x\<^sub>2x\<^sub>4x\<^sub>5\<close>, after it
  has changed the linear terms.
\<close>

theorem phase_cubic_terms_collide:
  "CNOTDihedral_init 5 = Inr (identity_elem 5)
   \<and> linear row1_full_5 = [[1,0,0,0,0],[0,1,1,1,1],[0,0,1,0,0],[0,0,0,1,0],[0,0,0,0,1]]
   \<and> shift row1_full_5 = [0,0,0,0,0]
   \<and> poly row1_full_5 = zero_poly 5
   \<and> \<not> raised (phase row1_full_5 1 1)
   \<and> get_term (poly (state (phase row1_full_5 1 1))) [1, 2, 3] = Inr 4
   \<and> get_term (poly (state (phase row1_full_5 1 1))) [1, 2, 4] = Inr 4
   \<and> get_term (poly (state (phase row1_full_5 1 1))) [1, 3, 4] = Inr 0
   \<and> get_term (poly (state (phase row1_full_5 1 1))) [2, 3, 4] = Inr 0
   \<and> CNOTDihedral_init 6 = Inr (identity_elem 6)
   \<and> linear row2_full_6 ! 2 = [0,0,1,0,1,1]
   \<and> raised (phase row2_full_6 1 2) \<and> err (phase row2_full_6 1 2) = IndexError
   \<and> weight_1 (poly (state (phase row2_full_6 1 2))) = [0,0,1,0,1,1]"
  by code_simp


section \<open>Contract violations\<close>

lemma term_accessors_violation:
  "check_indices (n_vars p) L = Some x \<Longrightarrow> set_term p L v = Raise x p \<and> get_term p L = Inl x"
  by (simp add: set_term_def get_term_def)

lemma check_indices_kind:
  "(\<not> length L < 4 \<longrightarrow> check_indices n L = Some (AssertionError ''no term!''))
   \<and> (length L < 4 \<and> (\<exists>x \<in> set L. x < 0 \<or> n \<le> x)
        \<longrightarrow> check_indices n L = Some (AssertionError ''indices out of bounds!''))
   \<and> (length L < 4 \<and> (\<forall>x \<in> set L. 0 \<le> x \<and> x < n) \<and> \<not> sorted_wrt (<) L
        \<longrightarrow> check_indices n L = Some (AssertionError ''indices non-increasing!''))"
proof (intro conjI impI)
  assume "\<not> length L < 4"
  then show "check_indices n L = Some (AssertionError ''no term!'')"
    by (simp add: check_indices_def)
next
  assume "length L < 4 \<and> (\<exists>x \<in> set L. x < 0 \<or> n \<le> x)"
  then have "length L < 4" and "list_ex (\<lambda>x. x < 0 \<or> x \<ge> n) L"
    by (simp_all add: list_ex_iff)
  then show "check_indices n L = Some (AssertionError ''indices out of bounds!'')"
    by (simp add: check_indices_def)
next
  assume "length L < 4 \<and> (\<forall>x \<in> set L. 0 \<le> x \<and> x < n) \<and> \<not> sorted_wrt (<) L"
  then have "length L < 4" and "\<not> list_ex (\<lambda>x. x < 0 \<or> x \<ge> n) L" and "\<not> sorted_wrt (<) L"
    by (auto simp: list_ex_iff)
  then show "check_indices n L = Some (AssertionError ''indices non-increasing!'')"
    by (simp add: check_indices_def)
qed

lemma set_term_raise_unchanged: "set_term p L v = Raise x p' \<Longrightarrow> p' = p"
  by (auto simp: set_term_def Let_def split: option.splits list.splits sum.splits)

lemma flip_raise_unchanged: "flip e i = Raise x e' \<Longrightarrow> e' = e"
  by (auto simp: flip_def split: if_splits sum.splits)

lemma cnot_assertion_unchanged: "cnot e i j = Raise (AssertionError m) e' \<Longrightarrow> e' = e"
  apply (auto simp: cnot_def Let_def split: if_splits sum.splits)
  apply (auto simp: bind_res_Inl py_getitem_def py_setitem_def split: option.splits)
  done

lemma flip_violation:
  "(i < 0 \<longrightarrow> flip e i = Raise (AssertionError ''i negative!'') e)
   \<and> (0 \<le> i \<and> num_qubits e \<le> i \<longrightarrow> flip e i = Raise (AssertionError ''i too big!'') e)"
  by (simp add: flip_def)

lemma phase_violation:
  "(i < 0 \<longrightarrow> phase e k i = Raise (AssertionError ''i negative!'') e)
   \<and> (0 \<le> i \<and> num_qubits e \<le> i \<longrightarrow> phase e k i = Raise (AssertionError ''i too big!'') e)"
  by (simp add: phase_def)

lemma cnot_violation:
  "(i < 0 \<longrightarrow> cnot e i j = Raise (AssertionError ''i negative!'') e)
   \<and> (0 \<le> i \<and> j < 0 \<longrightarrow> cnot e i j = Raise (AssertionError ''j negative!'') e)
   \<and> (0 \<le> i \<and> 0 \<le> j \<and> num_qubits e \<le> i \<longrightarrow> cnot e i j = Raise (AssertionError ''i too big!'') e)
   \<and> (0 \<le> i \<and> 0 \<le> j \<and> i < num_qubits e \<and> num_qubits e \<le> j
        \<longrightarrow> cnot e i j = Raise (AssertionError ''j too big!'') e)
   \<and> (0 \<le> i \<and> i < num_qubits e \<and> i = j \<longrightarrow> cnot e i j = Raise (AssertionError ''i == j!'') e)"
  by (simp add: cnot_def)

lemma mul_violation:
  "num_qubits a \<noteq> num_qubits b \<Longrightarrow>
     mul a b = Inl (AssertionError ''not same num_qubits!'')
     \<and> rmul a b = Inl (AssertionError ''not same num_qubits!'')"
  by (simp add: mul_def rmul_def)

lemma append_circuit_stops:
  "for_each (append_instr nm q) c1 e = Ok e1 \<Longrightarrow> append_instr nm q ins e1 = Raise x e2 \<Longrightarrow>
     append_circuit e nm (c1 @ ins # c2) (Some q) = Raise x e2"
  by (simp add: append_circuit_def for_each_append)

lemma append_instr_unrecognized:
  "map_res (py_getitem q) (qregs ins) = Inr qs \<Longrightarrow>
   name ins \<notin> {''x'', ''u1'', ''cx'', ''id''} \<Longrightarrow>
     append_instr nm q ins e = Raise (QiskitError (''Not a CNOT-Dihedral gate: '' @ nm)) e"
  by (simp add: append_instr_def)

text \<open>
  C8, as stated, fails for \<^verbatim>\<open>append_circuit\<close>: it checks nothing before it starts, and applies
  the instructions one by one to the element it was given. On the two-qubit identity, the
  circuit \<^verbatim>\<open>x(0); cx(0, 0)\<close> raises at its second instruction, and the element has been flipped.
\<close>

theorem append_circuit_partial_mutation:
  "append_circuit (identity_elem 2) ''qc'' (cx 0 0 (x_gate 0 [])) None
     = Raise (AssertionError ''i == j!'') ((identity_elem 2)\<lparr>shift := [1, 0]\<rparr>)
   \<and> (identity_elem 2)\<lparr>shift := [1, 0]\<rparr> \<noteq> identity_elem 2"
  by code_simp

text \<open>
  C8, amended. Each of \<^verbatim>\<open>set_term\<close>, \<^verbatim>\<open>get_term\<close>, \<^verbatim>\<open>flip\<close>, \<^verbatim>\<open>phase\<close>, \<^verbatim>\<open>cnot\<close> and the two
  compositions checks its preconditions before it changes anything: called with arguments that
  violate one, it raises the assertion of that precondition and leaves its receiver as it was.
  \<^verbatim>\<open>append_circuit\<close> applies the instructions in order; when one of them raises, the exception
  escapes with the element as the earlier instructions and the failing one left it, and an
  instruction of an unknown kind leaves it as the earlier instructions left it.
\<close>

theorem contract_violation_validated_first:
  assumes "\<not> length L4 < 4"
    and "length Lout < 4" and "\<exists>x \<in> set Lout. x < 0 \<or> n_vars p \<le> x"
    and "length Ldec < 4" and "\<forall>x \<in> set Ldec. 0 \<le> x \<and> x < n_vars p" and "\<not> sorted_wrt (<) Ldec"
    and "q_neg < 0"
    and "0 \<le> q_big" and "num_qubits e \<le> q_big"
    and "0 \<le> q_ok" and "q_ok < num_qubits e"
    and "num_qubits a \<noteq> num_qubits b"
    and "for_each (append_instr nm qs) c1 e0 = Ok e1"
    and "append_instr nm qs ins e1 = Raise x e2"
    and "map_res (py_getitem qs) (qregs other) = Inr oq"
    and "name other \<notin> {''x'', ''u1'', ''cx'', ''id''}"
  shows "set_term p L4 v = Raise (AssertionError ''no term!'') p
    \<and> get_term p L4 = Inl (AssertionError ''no term!'')
    \<and> set_term p Lout v = Raise (AssertionError ''indices out of bounds!'') p
    \<and> get_term p Lout = Inl (AssertionError ''indices out of bounds!'')
    \<and> set_term p Ldec v = Raise (AssertionError ''indices non-increasing!'') p
    \<and> get_term p Ldec = Inl (AssertionError ''indices non-increasing!'')
    \<and> flip e q_neg = Raise (AssertionError ''i negative!'') e
    \<and> flip e q_big = Raise (AssertionError ''i too big!'') e
    \<and> phase e k q_neg = Raise (AssertionError ''i negative!'') e
    \<and> phase e k q_big = Raise (AssertionError ''i too big!'') e
    \<and> cnot e q_neg j = Raise (AssertionError ''i negative!'') e
    \<and> cnot e q_ok q_neg = Raise (AssertionError ''j negative!'') e
    \<and> cnot e q_big q_ok = Raise (AssertionError ''i too big!'') e
    \<and> cnot e q_ok q_big = Raise (AssertionError ''j too big!'') e
    \<and> cnot e q_ok q_ok = Raise (AssertionError ''i == j!'') e
    \<and> mul a b = Inl (AssertionError ''not same num_qubits!'')
    \<and> rmul a b = Inl (AssertionError ''not same num_qubits!'')
    \<and> append_circuit e0 nm (c1 @ ins # c2) (Some qs) = Raise x e2
    \<and> append_circuit e0 nm (c1 @ other # c2) (Some qs)
          = Raise (QiskitError (''Not a CNOT-Dihedral gate: '' @ nm)) e1"
proof -
  have c4: "check_indices (n_vars p) L4 = Some (AssertionError ''no term!'')"
    using assms(1) check_indices_kind [where L = L4 and n = "n_vars p"] by blast
  have cout: "check_indices (n_vars p) Lout = Some (AssertionError ''indices out of bounds!'')"
    using assms(2,3) check_indices_kind [where L = Lout and n = "n_vars p"] by blast
  have cdec: "check_indices (n_vars p) Ldec = Some (AssertionError ''indices non-increasing!'')"
    using assms(4,5,6) check_indices_kind [where L = Ldec and n = "n_vars p"] by blast
  have t1: "set_term p L4 v = Raise (AssertionError ''no term!'') p"
    and t2: "get_term p L4 = Inl (AssertionError ''no term!'')"
    using term_accessors_violation [OF c4] by simp_all
  have t3: "set_term p Lout v = Raise (AssertionError ''indices out of bounds!'') p"
    and t4: "get_term p Lout = Inl (AssertionError ''indices out of bounds!'')"
    using term_accessors_violation [OF cout] by simp_all
  have t5: "set_term p Ldec v = Raise (AssertionError ''indices non-increasing!'') p"
    and t6: "get_term p Ldec = Inl (AssertionError ''indices non-increasing!'')"
    using term_accessors_violation [OF cdec] by simp_all
  have f1: "flip e q_neg = Raise (AssertionError ''i negative!'') e"
    and f2: "flip e q_big = Raise (AssertionError ''i too big!'') e"
    using assms(7,8,9) flip_violation [where i = q_neg and e = e]
      flip_violation [where i = q_big and e = e] by simp_all
  have p1: "phase e k q_neg = Raise (AssertionError ''i negative!'') e"
    and p2: "phase e k q_big = Raise (AssertionError ''i too big!'') e"
    using assms(7,8,9) phase_violation [where i = q_neg and e = e and k = k]
      phase_violation [where i = q_big and e = e and k = k]
    by simp_all
  have x1: "cnot e q_neg j = Raise (AssertionError ''i negative!'') e"
    using assms(7) cnot_violation [where i = q_neg and e = e and j = j] by simp
  have x2: "cnot e q_ok q_neg = Raise (AssertionError ''j negative!'') e"
    using assms(7,10) cnot_violation [where i = q_ok and j = q_neg and e = e] by simp
  have x3: "cnot e q_big q_ok = Raise (AssertionError ''i too big!'') e"
    using assms(8,9,10) cnot_violation [where i = q_big and j = q_ok and e = e] by simp
  have x4: "cnot e q_ok q_big = Raise (AssertionError ''j too big!'') e"
    using assms(8,9,10,11) cnot_violation [where i = q_ok and j = q_big and e = e] by simp
  have x5: "cnot e q_ok q_ok = Raise (AssertionError ''i == j!'') e"
    using assms(10,11) cnot_violation [where i = q_ok and j = q_ok and e = e] by simp
  have m1: "mul a b = Inl (AssertionError ''not same num_qubits!'')"
    and m2: "rmul a b = Inl (AssertionError ''not same num_qubits!'')"
    using mul_violation [OF assms(12)] by simp_all
  have a1: "append_circuit e0 nm (c1 @ ins # c2) (Some qs) = Raise x e2"
    using append_circuit_stops [OF assms(13,14)] .
  have a2: "append_circuit e0 nm (c1 @ other # c2) (Some qs)
          = Raise (QiskitError (''Not a CNOT-Dihedral gate: '' @ nm)) e1"
    using append_circuit_stops [OF assms(13) append_instr_unrecognized [OF assms(15,16)]] .
  show ?thesis
    by (intro conjI t1 t2 t3 t4 t5 t6 f1 f2 p1 p2 x1 x2 x3 x4 x5 m1 m2 a1 a2)
qed

theorem contract_violation_validated_first_witness:
  "set_term (zero_poly 2) [0, 1, 2, 3] 1 = Raise (AssertionError ''no term!'') (zero_poly 2)
   \<and> set_term (zero_poly 2) [5] 1 = Raise (AssertionError ''indices out of bounds!'') (zero_poly 2)
   \<and> set_term (zero_poly 2) [1, 0] 1
        = Raise (AssertionError ''indices non-increasing!'') (zero_poly 2)
   \<and> flip (identity_elem 2) (- 1) = Raise (AssertionError ''i negative!'') (identity_elem 2)
   \<and> phase (identity_elem 2) 1 2 = Raise (AssertionError ''i too big!'') (identity_elem 2)
   \<and> cnot (identity_elem 2) 0 2 = Raise (AssertionError ''j too big!'') (identity_elem 2)
   \<and> cnot (identity_elem 2) 0 0 = Raise (AssertionError ''i == j!'') (identity_elem 2)
   \<and> mul (identity_elem 1) (identity_elem 2) = Inl (AssertionError ''not same num_qubits!'')
   \<and> append_circuit (identity_elem 2) ''qc'' (x_gate 0 [] @ \<lparr>name = ''cx'', params = [], qregs = [0, 0]\<rparr> # [])
        (Some [0, 1])
        = Raise (AssertionError ''i == j!'') ((identity_elem 2)\<lparr>shift := [1, 0]\<rparr>)
   \<and> append_circuit (identity_elem 2) ''qc'' (x_gate 0 [] @ \<lparr>name = ''h'', params = [], qregs = [0]\<rparr> # [])
        (Some [0, 1])
        = Raise (QiskitError (''Not a CNOT-Dihedral gate: '' @ ''qc'')) ((identity_elem 2)\<lparr>shift := [1, 0]\<rparr>)"
proof -
  have h1: "\<not> length [0, 1, 2, 3 :: int] < 4"
    and h2: "length [5 :: int] < 4"
    and h3: "\<exists>x \<in> set [5 :: int]. x < 0 \<or> n_vars (zero_poly 2) \<le> x"
    and h4: "length [1, 0 :: int] < 4"
    and h5: "\<forall>x \<in> set [1, 0 :: int]. 0 \<le> x \<and> x < n_vars (zero_poly 2)"
    and h6: "\<not> sorted_wrt (<) [1, 0 :: int]"
    by (simp_all add: zero_poly_def)
  have h7: "(- 1 :: int) < 0" and h8: "(0 :: int) \<le> 2"
    and h9: "num_qubits (identity_elem 2) \<le> 2"
    and h10: "(0 :: int) \<le> 0" and h11: "0 < num_qubits (identity_elem 2)"
    and h12: "num_qubits (identity_elem 1) \<noteq> num_qubits (identity_elem 2)"
    by (simp_all add: identity_elem_def)
  have h13: "for_each (append_instr ''qc'' [0, 1]) (x_gate 0 []) (identity_elem 2)
               = Ok ((identity_elem 2)\<lparr>shift := [1, 0]\<rparr>)"
    by code_simp
  have h14: "append_instr ''qc'' [0, 1] \<lparr>name = ''cx'', params = [], qregs = [0, 0]\<rparr>
               ((identity_elem 2)\<lparr>shift := [1, 0]\<rparr>)
               = Raise (AssertionError ''i == j!'') ((identity_elem 2)\<lparr>shift := [1, 0]\<rparr>)"
    by code_simp
  have h15: "map_res (py_getitem [0, 1 :: int]) (qregs \<lparr>name = ''h'', params = [], qregs = [0]\<rparr>)
               = Inr [0]"
    by code_simp
  have h16: "name \<lparr>name = ''h'', params = [], qregs = [0]\<rparr> \<notin> {''x'', ''u1'', ''cx'', ''id''}"
    by simp
  show ?thesis
    using contract_violation_validated_first
      [OF h1 h2 h3 h4 h5 h6 h7 h8 h9 h10 h11 h12 h13 h14 h15 h16,
       where v = 1 and k = 1 and j = 0 and ?c2.0 = "[]"]
    by blast
qed


section \<open>Synthesis and transcription on one and two qubits\<close>

lemma identity_elem_2: "identity_elem 2 = elem2 0 0 0 0 [[1,0],[0,1]] 0 0"
  by code_simp

lemma py_int_of_int [simp]: "py_int (of_int x) = x"
  by (simp add: py_int_def)

lemma py_fmod_of_int_8: "py_fmod (of_int x) 8 = of_int (x mod 8)"
proof -
  have "\<lfloor>(of_int x :: rat) / of_int 8\<rfloor> = x div 8"
    by (rule floor_divide_of_int_eq)
  then have f: "\<lfloor>(of_int x :: rat) / 8\<rfloor> = x div 8" by simp
  have "x mod 8 = x - 8 * (x div 8)"
    by (simp add: minus_mult_div_eq_mod)
  then show ?thesis
    by (simp add: py_fmod_def f)
qed

lemma py_int_simps [simp]: "py_int 0 = 0" "py_int 1 = 1" "py_int (numeral n) = numeral n"
  by (simp_all add: py_int_def)

lemma combinations_2: "combinations xs 2 = combinations xs (Suc (Suc 0))"
  by (simp add: numeral_2_eq_2)

lemma combinations_3: "combinations xs 3 = combinations xs (Suc (Suc (Suc 0)))"
  by (simp add: numeral_3_eq_3)

lemmas eval_simps = combinations_2 combinations_3 phase_def elem2_def Let_def py_getitem_def py_setitem_def py_index_def
  support_of_def on_poly_def add_to_term_def get_term_def set_term_def check_indices_def
  offset_quadratic_def conj_k_def

lemma phase_q0_row10:
  "phase (elem2 c a b w ([1, 0] # rs) s0 s1) k 0
     = Ok (elem2 c ((a + conj_k s0 k) mod 8) b w ([1, 0] # rs) s0 s1)"
  by (simp add: eval_simps)

lemma phase_q0_row11:
  "phase (elem2 c a b w ([1, 1] # rs) s0 s1) k 0
     = Ok (elem2 c ((a + conj_k s0 k) mod 8) ((b + conj_k s0 k) mod 8)
             ((w - 2 * conj_k s0 k) mod 8) ([1, 1] # rs) s0 s1)"
  by (simp add: eval_simps)

lemma phase_q1_row11:
  "phase (elem2 c a b w [r, [1, 1]] s0 s1) k 1
     = Ok (elem2 c ((a + conj_k s1 k) mod 8) ((b + conj_k s1 k) mod 8)
             ((w - 2 * conj_k s1 k) mod 8) [r, [1, 1]] s0 s1)"
  by (simp add: eval_simps)

lemma flip_elem2:
  "flip (elem2 c a b w lin s0 s1) 0 = Ok (elem2 c a b w lin ((s0 + 1) mod 2) s1)"
  "flip (elem2 c a b w lin s0 s1) 1 = Ok (elem2 c a b w lin s0 ((s1 + 1) mod 2))"
  by (simp_all add: flip_def elem2_def bind_res_def py_getitem_def py_setitem_def py_index_def)

lemma py_range_2: "py_range 2 = [0, 1]"
  by code_simp

lemma cnot_elem2:
  "cnot (elem2 c a b w [[p, q], [r, s]] s0 s1) 0 1
     = Ok (elem2 c a b w [[p, q], [(p + r) mod 2, (q + s) mod 2]] s0 ((s0 + s1) mod 2))"
  "cnot (elem2 c a b w [[p, q], [r, s]] s0 s1) 1 0
     = Ok (elem2 c a b w [[(r + p) mod 2, (s + q) mod 2], [r, s]] ((s1 + s0) mod 2) s1)"
  by (simp_all add: cnot_def elem2_def bind_res_def py_getitem_def py_setitem_def py_index_def
      py_range_2)

lemma phase_q0_row01:
  "phase (elem2 c a b w ([0, 1] # rs) s0 s1) k 0
     = Ok (elem2 c a ((b + conj_k s0 k) mod 8) w ([0, 1] # rs) s0 s1)"
  by (simp add: eval_simps)

lemma phase_q1_row10:
  "phase (elem2 c a b w [r, [1, 0]] s0 s1) k 1
     = Ok (elem2 c ((a + conj_k s1 k) mod 8) b w [r, [1, 0]] s0 s1)"
  by (simp add: eval_simps)

lemma phase_q1_row01:
  "phase (elem2 c a b w [r, [0, 1]] s0 s1) k 1
     = Ok (elem2 c a ((b + conj_k s1 k) mod 8) w [r, [0, 1]] s0 s1)"
  by (simp add: eval_simps)

lemma append_circuit_run2:
  "num_qubits e = 2 \<Longrightarrow> append_circuit e nm c None = run2 nm c e"
  by (simp add: append_circuit_def run2_def py_range_2)

lemma run2_Nil [simp]: "run2 nm [] e = Ok e"
  by (simp add: run2_def)

lemma run2_snoc: "run2 nm (c @ [i]) e = and_then (run2 nm c e) (append_instr nm [0, 1] i)"
  by (simp add: run2_def for_each_append and_then_def split: outcome.splits)

lemma run2_gates:
  "run2 nm (u1 t 0 c) e = and_then (run2 nm c e) (\<lambda>e'. phase e' (py_int t) 0)"
  "run2 nm (u1 t 1 c) e = and_then (run2 nm c e) (\<lambda>e'. phase e' (py_int t) 1)"
  "run2 nm (x_gate 0 c) e = and_then (run2 nm c e) (\<lambda>e'. flip e' 0)"
  "run2 nm (x_gate 1 c) e = and_then (run2 nm c e) (\<lambda>e'. flip e' 1)"
  "run2 nm (cx 0 1 c) e = and_then (run2 nm c e) (\<lambda>e'. cnot e' 0 1)"
  "run2 nm (cx 1 0 c) e = and_then (run2 nm c e) (\<lambda>e'. cnot e' 1 0)"
  "run2 nm (id_gate 0 c) e = run2 nm c e"
  "run2 nm (id_gate 1 c) e = run2 nm c e"
  by (simp_all add: run2_snoc u1_def x_gate_def cx_def id_gate_def append_instr_def
      bind_res_def py_getitem_def py_index_def and_then_def split: outcome.splits)

lemma elem2_sel [simp]:
  "num_qubits (elem2 c a b w lin s0 s1) = 2"
  "weight_0 (poly (elem2 c a b w lin s0 s1)) = c"
  "weight_1 (poly (elem2 c a b w lin s0 s1)) = [a, b]"
  "weight_2 (poly (elem2 c a b w lin s0 s1)) = [w]"
  "linear (elem2 c a b w lin s0 s1) = lin"
  "shift (elem2 c a b w lin s0 s1) = [s0, s1]"
  by (simp_all add: elem2_def)

lemma elem2_eq [simp]:
  "elem2 c a b w lin s0 s1 = elem2 c' a' b' w' lin' s0' s1'
     \<longleftrightarrow> c = c' \<and> a = a' \<and> b = b' \<and> w = w' \<and> lin = lin' \<and> s0 = s0' \<and> s1 = s1'"
  by (auto simp: elem2_def)

lemma m_table:
  "py_fmod 0 4 = 0" "py_fmod 1 4 = 1" "py_fmod 2 4 = 2" "py_fmod 3 4 = 3" "py_fmod 4 4 = 0"
  by code_simp+

lemma py_fmod_shift:
  "py_fmod (rat_of_int x - numeral n) 8 = rat_of_int ((x - numeral n) mod 8)"
  "py_fmod (rat_of_int x + numeral n) 8 = rat_of_int ((x + numeral n) mod 8)"
  "py_fmod (rat_of_int x - 1) 8 = rat_of_int ((x - 1) mod 8)"
  "py_fmod (rat_of_int x + 1) 8 = rat_of_int ((x + 1) mod 8)"
  "py_fmod (rat_of_int x - 0) 8 = rat_of_int (x mod 8)"
  "py_fmod (rat_of_int x + 0) 8 = rat_of_int (x mod 8)"
  using py_fmod_of_int_8 [of "x - numeral n"] py_fmod_of_int_8 [of "x + numeral n"]
    py_fmod_of_int_8 [of "x - 1"] py_fmod_of_int_8 [of "x + 1"] py_fmod_of_int_8 [of x]
  by simp_all

lemma and_then_if:
  "and_then r (\<lambda>e. if c then f e else Ok e) = (if c then and_then r f else r)"
  by (cases r) (simp_all add: and_then_def)

lemma run2_opt:
  "run2 nm (if 0 < l then u1 l 0 c else c) e = and_then (run2 nm c e) (phase_opt l 0)"
  "run2 nm (if 0 < l then u1 l 1 c else c) e = and_then (run2 nm c e) (phase_opt l 1)"
  "run2 nm (if k = 1 then x_gate 0 c else c) e = and_then (run2 nm c e) (flip_opt k 0)"
  "run2 nm (if k = 1 then x_gate 1 c else c) e = and_then (run2 nm c e) (flip_opt k 1)"
  by (cases "run2 nm c e"; simp add: run2_gates phase_opt_def flip_opt_def)+

lemma run2_local_gates:
  "run2 nm (local_gates l0 k0 l1 k1 c) e
     = and_then (and_then (and_then (and_then (run2 nm c e)
         (phase_opt l0 0)) (flip_opt k0 0)) (phase_opt l1 1)) (flip_opt k1 1)"
  by (simp only: local_gates_def Let_def run2_opt)

lemma phase_opt_0: "phase_opt 0 q e = Ok e"
  by (simp add: phase_opt_def)

lemma phase_opt_elem2:
  "0 \<le> L \<Longrightarrow> 0 \<le> a \<Longrightarrow> a < 8 \<Longrightarrow>
     phase_opt (rat_of_int L) 0 (elem2 c a b w ([1, 0] # rs) s0 s1)
       = Ok (elem2 c ((a + conj_k s0 L) mod 8) b w ([1, 0] # rs) s0 s1)"
  "0 \<le> L \<Longrightarrow> 0 \<le> b \<Longrightarrow> b < 8 \<Longrightarrow>
     phase_opt (rat_of_int L) 1 (elem2 c a b w [r, [0, 1]] s0 s1)
       = Ok (elem2 c a ((b + conj_k s1 L) mod 8) w [r, [0, 1]] s0 s1)"
  by (auto simp: phase_opt_def phase_q0_row10 phase_q1_row01 conj_k_def)

lemma flip_opt_elem2:
  "flip_opt 0 q e = Ok e"
  "flip_opt 1 0 (elem2 c a b w lin s0 s1) = Ok (elem2 c a b w lin ((s0 + 1) mod 2) s1)"
  "flip_opt 1 1 (elem2 c a b w lin s0 s1) = Ok (elem2 c a b w lin s0 ((s1 + 1) mod 2))"
  by (simp_all add: flip_opt_def flip_elem2)

lemmas dec_simps = decompose_CNOTDihedral_def decompose_cx_class_def cx_class_params_def
  decompose_diagonal_def unpack2_def bind_res_def py_getitem_def py_index_def Let_def
  m_table py_fmod_shift py_fmod_of_int_8 run2_local_gates phase_opt_elem2 flip_opt_elem2
  run2_gates flip_elem2 cnot_elem2 conj_k_def
  phase_q0_row10 phase_q0_row01 phase_q0_row11 phase_q1_row10 phase_q1_row01 phase_q1_row11
  mod_simps

lemma roundtrip_diag:
  assumes "0 \<le> a" "a < 8" "0 \<le> b" "b < 8"
    and "s0 = 0 \<or> s0 = 1" and "s1 = 0 \<or> s1 = 1" and "w = 0 \<or> w = 2 \<or> w = 4 \<or> w = 6"
  shows "case decompose_CNOTDihedral (elem2 0 a b w [[1,0],[0,1]] s0 s1) of
           Inr c \<Rightarrow> run2 nm c (elem2 0 0 0 0 [[1,0],[0,1]] 0 0) = Ok (elem2 0 a b w [[1,0],[0,1]] s0 s1)
         | Inl _ \<Rightarrow> False"
  using assms(5,6,7)
  apply (elim disjE)
  apply (simp_all add: dec_simps phase_opt_0 assms(1-4))
  using assms(1-4) apply presburger+
  done

lemma roundtrip_cx01:
  assumes "0 \<le> a" "a < 8" "0 \<le> b" "b < 8"
    and "s0 = 0 \<or> s0 = 1" and "s1 = 0 \<or> s1 = 1" and "w = 0 \<or> w = 2 \<or> w = 4 \<or> w = 6"
  shows "case decompose_CNOTDihedral (elem2 0 a b w [[1,0],[1,1]] s0 s1) of
           Inr c \<Rightarrow> run2 nm c (elem2 0 0 0 0 [[1,0],[0,1]] 0 0) = Ok (elem2 0 a b w [[1,0],[1,1]] s0 s1)
         | Inl _ \<Rightarrow> False"
  using assms(5,6,7)
  by (elim disjE) (simp_all add: dec_simps assms(1-4))

lemma roundtrip_cx10:
  assumes "0 \<le> a" "a < 8" "0 \<le> b" "b < 8"
    and "s0 = 0 \<or> s0 = 1" and "s1 = 0 \<or> s1 = 1" and "w = 0 \<or> w = 2 \<or> w = 4 \<or> w = 6"
  shows "case decompose_CNOTDihedral (elem2 0 a b w [[1,1],[0,1]] s0 s1) of
           Inr c \<Rightarrow> run2 nm c (elem2 0 0 0 0 [[1,0],[0,1]] 0 0) = Ok (elem2 0 a b w [[1,1],[0,1]] s0 s1)
         | Inl _ \<Rightarrow> False"
  using assms(5,6,7)
  by (elim disjE) (simp_all add: dec_simps assms(1-4))

lemma roundtrip_cx01_cx10:
  assumes "0 \<le> a" "a < 8" "0 \<le> b" "b < 8"
    and "s0 = 0 \<or> s0 = 1" and "s1 = 0 \<or> s1 = 1" and "w = 0 \<or> w = 2 \<or> w = 4 \<or> w = 6"
  shows "case decompose_CNOTDihedral (elem2 0 a b w [[0,1],[1,1]] s0 s1) of
           Inr c \<Rightarrow> run2 nm c (elem2 0 0 0 0 [[1,0],[0,1]] 0 0) = Ok (elem2 0 a b w [[0,1],[1,1]] s0 s1)
         | Inl _ \<Rightarrow> False"
  using assms(5,6,7)
  by (elim disjE) (simp_all add: dec_simps assms(1-4))

lemma roundtrip_cx10_cx01:
  assumes "0 \<le> a" "a < 8" "0 \<le> b" "b < 8"
    and "s0 = 0 \<or> s0 = 1" and "s1 = 0 \<or> s1 = 1" and "w = 0 \<or> w = 2 \<or> w = 4 \<or> w = 6"
  shows "case decompose_CNOTDihedral (elem2 0 a b w [[1,1],[1,0]] s0 s1) of
           Inr c \<Rightarrow> run2 nm c (elem2 0 0 0 0 [[1,0],[0,1]] 0 0) = Ok (elem2 0 a b w [[1,1],[1,0]] s0 s1)
         | Inl _ \<Rightarrow> False"
  using assms(5,6,7)
  by (elim disjE) (simp_all add: dec_simps assms(1-4))

lemma roundtrip_swap:
  assumes "0 \<le> a" "a < 8" "0 \<le> b" "b < 8"
    and "s0 = 0 \<or> s0 = 1" and "s1 = 0 \<or> s1 = 1" and "w = 0 \<or> w = 2 \<or> w = 4 \<or> w = 6"
  shows "case decompose_CNOTDihedral (elem2 0 a b w [[0,1],[1,0]] s0 s1) of
           Inr c \<Rightarrow> run2 nm c (elem2 0 0 0 0 [[1,0],[0,1]] 0 0) = Ok (elem2 0 a b w [[0,1],[1,0]] s0 s1)
         | Inl _ \<Rightarrow> False"
  using assms(5,6,7)
  by (elim disjE) (simp_all add: dec_simps assms(1-4))

lemma z2matmul_2x2:
  "z2matmul 2 [[a, b], [c, d]] [[p, q], [r, s]]
     = Inr [[(a * p mod 2 + b * r) mod 2, (a * q mod 2 + b * s) mod 2],
            [(c * p mod 2 + d * r) mod 2, (c * q mod 2 + d * s) mod 2]]"
  by (simp add: z2matmul_def py_range_2 bind_res_def py_getitem_def py_setitem_def py_index_def
      numeral_2_eq_2)

lemma z2_vector_2: "is_z2_vector 2 v \<Longrightarrow> \<exists>a b. v = [a, b] \<and> (a = 0 \<or> a = 1) \<and> (b = 0 \<or> b = 1)"
  by (cases v; cases "tl v"; cases "tl (tl v)") (auto simp: is_z2_vector_def)

lemma z2_matrix_2:
  assumes "is_z2_matrix 2 M"
  shows "\<exists>a b c d. M = [[a, b], [c, d]] \<and> (a = 0 \<or> a = 1) \<and> (b = 0 \<or> b = 1)
           \<and> (c = 0 \<or> c = 1) \<and> (d = 0 \<or> d = 1)"
proof -
  from assms obtain r0 r1 where M: "M = [r0, r1]" and r: "is_z2_vector 2 r0" "is_z2_vector 2 r1"
    by (cases M; cases "tl M"; cases "tl (tl M)") (auto simp: is_z2_matrix_def)
  from z2_vector_2 [OF r(1)] z2_vector_2 [OF r(2)] M show ?thesis
    by blast
qed

lemma identity_matrix_small:
  "identity_matrix 1 = [[1]]" "identity_matrix 2 = [[1, 0], [0, 1]]"
  by code_simp+

lemma invertible_2x2:
  assumes "is_z2_matrix 2 M" and "invertible_z2 2 M"
  shows "M \<in> {[[1,0],[0,1]], [[1,0],[1,1]], [[1,1],[0,1]], [[0,1],[1,1]], [[1,1],[1,0]],
              [[0,1],[1,0]]}"
proof -
  from z2_matrix_2 [OF assms(1)] obtain a b c d where M: "M = [[a, b], [c, d]]"
    and ab: "a = 0 \<or> a = 1" "b = 0 \<or> b = 1" "c = 0 \<or> c = 1" "d = 0 \<or> d = 1"
    by blast
  from assms(2) obtain N where N: "is_z2_matrix 2 N"
    and prod: "z2matmul 2 M N = Inr (identity_matrix 2)"
    by (auto simp: invertible_z2_def)
  from z2_matrix_2 [OF N] obtain p q r s where N': "N = [[p, q], [r, s]]"
    by blast
  from prod have eqs: "(a * p mod 2 + b * r) mod 2 = 1" "(a * q mod 2 + b * s) mod 2 = 0"
    "(c * p mod 2 + d * r) mod 2 = 0" "(c * q mod 2 + d * s) mod 2 = 1"
    by (simp_all add: M N' z2matmul_2x2 identity_matrix_small)
  from ab eqs show ?thesis
    unfolding M by (elim disjE) simp_all
qed


section \<open>The round trip through synthesis\<close>

lemma py_range_1: "py_range 1 = [0]"
  by code_simp

lemma identity_elem_1: "identity_elem 1 = elem1 0 0 1 0"
  by code_simp

lemma phase_elem1:
  "phase (elem1 c a 1 s) k 0 = Ok (elem1 c ((a + conj_k s k) mod 8) 1 s)"
  by (simp add: eval_simps elem1_def)

lemma flip_elem1: "flip (elem1 c a x s) 0 = Ok (elem1 c a x ((s + 1) mod 2))"
  by (simp add: flip_def elem1_def bind_res_def py_getitem_def py_setitem_def py_index_def)

lemma roundtrip_1:
  assumes "0 \<le> a" "a < 8" "s = 0 \<or> s = 1"
  shows "case decompose_CNOTDihedral (elem1 0 a 1 s) of
           Inr c \<Rightarrow> append_circuit (elem1 0 0 1 0) nm c None = Ok (elem1 0 a 1 s)
         | Inl _ \<Rightarrow> False"
  using assms(3)
  apply (elim disjE)
  using assms(1,2)
  apply (simp_all add: elem1_def decompose_CNOTDihedral_def bind_res_def Let_def u1_def
      x_gate_def id_gate_def append_circuit_def py_range_1 append_instr_def eval_simps
      flip_def and_then_def)
  done

lemma list_len_1: "int (length xs) = 1 \<Longrightarrow> \<exists>a. xs = [a]"
  by (cases xs) auto

lemma list_len_2: "int (length xs) = 2 \<Longrightarrow> \<exists>a b. xs = [a, b]"
  by (cases xs; cases "tl xs"; cases "tl (tl xs)") auto

lemma wf_elem_2:
  assumes "wf_elem e" and "num_qubits e = 2"
  shows "\<exists>a b w s0 s1. e = elem2 (weight_0 (poly e)) a b w (linear e) s0 s1
           \<and> 0 \<le> a \<and> a < 8 \<and> 0 \<le> b \<and> b < 8 \<and> 0 \<le> w \<and> w < 8
           \<and> (s0 = 0 \<or> s0 = 1) \<and> (s1 = 0 \<or> s1 = 1)"
proof -
  from assms have p: "wf_poly (poly e)" and n: "n_vars (poly e) = 2"
    and sh: "is_z2_vector 2 (shift e)"
    by (simp_all add: wf_elem_def)
  from p n have c: "nc2 (poly e) = 1" "nc3 (poly e) = 0"
    by (simp_all add: wf_poly_def)
  from p n c have l: "int (length (weight_1 (poly e))) = 2" "int (length (weight_2 (poly e))) = 1"
    "length (weight_3 (poly e)) = 0"
    by (simp_all add: wf_poly_def)
  from list_len_2 [OF l(1)] obtain a b where w1: "weight_1 (poly e) = [a, b]" by blast
  from list_len_1 [OF l(2)] obtain w where w2: "weight_2 (poly e) = [w]" by blast
  from l(3) have w3: "weight_3 (poly e) = []" by simp
  from z2_vector_2 [OF sh] obtain s0 s1 where s: "shift e = [s0, s1]"
    and sb: "s0 = 0 \<or> s0 = 1" "s1 = 0 \<or> s1 = 1" by blast
  from p w1 w2 have r: "0 \<le> a \<and> a < 8 \<and> 0 \<le> b \<and> b < 8 \<and> 0 \<le> w \<and> w < 8"
    by (simp add: wf_poly_def)
  have "e = elem2 (weight_0 (poly e)) a b w (linear e) s0 s1"
    using n c w1 w2 w3 s assms(2) by (cases e; cases "poly e") (simp add: elem2_def)
  with r sb show ?thesis by blast
qed

lemma wf_elem_1:
  assumes "wf_elem e" and "num_qubits e = 1"
  shows "\<exists>a x s. e = elem1 (weight_0 (poly e)) a x s
           \<and> 0 \<le> a \<and> a < 8 \<and> (x = 0 \<or> x = 1) \<and> (s = 0 \<or> s = 1)"
proof -
  from assms have p: "wf_poly (poly e)" and n: "n_vars (poly e) = 1"
    and sh: "is_z2_vector 1 (shift e)" and m: "is_z2_matrix 1 (linear e)"
    by (simp_all add: wf_elem_def)
  from p n have c: "nc2 (poly e) = 0" "nc3 (poly e) = 0"
    by (simp_all add: wf_poly_def)
  from p n c have l: "int (length (weight_1 (poly e))) = 1" "length (weight_2 (poly e)) = 0"
    "length (weight_3 (poly e)) = 0"
    by (simp_all add: wf_poly_def)
  from list_len_1 [OF l(1)] obtain a where w1: "weight_1 (poly e) = [a]" by blast
  from l(2,3) have w23: "weight_2 (poly e) = []" "weight_3 (poly e) = []" by simp_all
  from sh have "int (length (shift e)) = 1" by (simp add: is_z2_vector_def)
  from list_len_1 [OF this] obtain s where s: "shift e = [s]" by blast
  from sh s have sb: "s = 0 \<or> s = 1" by (simp add: is_z2_vector_def)
  from m have "int (length (linear e)) = 1" by (simp add: is_z2_matrix_def)
  from list_len_1 [OF this] obtain r where lr: "linear e = [r]" by blast
  from m lr have rv: "is_z2_vector 1 r" by (simp add: is_z2_matrix_def)
  then have "int (length r) = 1" by (simp add: is_z2_vector_def)
  from list_len_1 [OF this] obtain x where rx: "r = [x]" by blast
  from rv rx have xb: "x = 0 \<or> x = 1" by (simp add: is_z2_vector_def)
  from p w1 have ra: "0 \<le> a \<and> a < 8" by (simp add: wf_poly_def)
  have "e = elem1 (weight_0 (poly e)) a x s"
    using n c w1 w23 s lr rx assms(2) by (cases e; cases "poly e") (simp add: elem1_def)
  with ra xb sb show ?thesis by blast
qed

lemma z2matmul_1x1: "z2matmul 1 [[a]] [[p]] = Inr [[a * p mod 2]]"
  by (simp add: z2matmul_def py_range_1 bind_res_def py_getitem_def py_setitem_def py_index_def)

lemma invertible_1x1:
  assumes "invertible_z2 1 [[x]]" and "x = 0 \<or> x = 1"
  shows "x = 1"
proof -
  from assms(1) obtain N where N: "is_z2_matrix 1 N"
    and prod: "z2matmul 1 [[x]] N = Inr (identity_matrix 1)"
    by (auto simp: invertible_z2_def)
  from N have "int (length N) = 1" by (simp add: is_z2_matrix_def)
  from list_len_1 [OF this] obtain r where Nr: "N = [r]" by blast
  from N Nr have "int (length r) = 1" by (simp add: is_z2_matrix_def is_z2_vector_def)
  from list_len_1 [OF this] obtain p where "r = [p]" by blast
  with Nr prod have "x * p mod 2 = 1"
    by (simp add: z2matmul_1x1 identity_matrix_small)
  with assms(2) show ?thesis by auto
qed

lemma round_trip_2:
  assumes "wf_elem e" and "num_qubits e = 2" and "invertible_z2 2 (linear e)"
    and "weight_0 (poly e) = 0" and "list_all even (weight_2 (poly e))"
  shows "\<exists>c. decompose_CNOTDihedral e = Inr c
            \<and> append_circuit (identity_elem 2) nm c None = Ok e"
proof -
  from wf_elem_2 [OF assms(1,2)] assms(4) obtain a b w s0 s1
    where e: "e = elem2 0 a b w (linear e) s0 s1"
      and r: "0 \<le> a" "a < 8" "0 \<le> b" "b < 8" and w: "0 \<le> w" "w < 8"
      and s: "s0 = 0 \<or> s0 = 1" "s1 = 0 \<or> s1 = 1"
    by auto
  have "weight_2 (poly e) = [w]"
    by (subst e) simp
  with assms(5) have "even w"
    by simp
  with w have w': "w = 0 \<or> w = 2 \<or> w = 4 \<or> w = 6"
    by presburger
  from assms(1,2) have "is_z2_matrix 2 (linear e)"
    by (simp add: wf_elem_def)
  from invertible_2x2 [OF this assms(3)]
  have lin: "linear e = [[1,0],[0,1]] \<or> linear e = [[1,0],[1,1]] \<or> linear e = [[1,1],[0,1]]
      \<or> linear e = [[0,1],[1,1]] \<or> linear e = [[1,1],[1,0]] \<or> linear e = [[0,1],[1,0]]"
    by simp
  have "case decompose_CNOTDihedral e of
          Inr c \<Rightarrow> run2 nm c (elem2 0 0 0 0 [[1,0],[0,1]] 0 0) = Ok e | Inl _ \<Rightarrow> False"
    using lin
  proof (elim disjE)
    assume l: "linear e = [[1,0],[0,1]]"
    show ?thesis using roundtrip_diag [OF r s w'] e l by metis
  next
    assume l: "linear e = [[1,0],[1,1]]"
    show ?thesis using roundtrip_cx01 [OF r s w'] e l by metis
  next
    assume l: "linear e = [[1,1],[0,1]]"
    show ?thesis using roundtrip_cx10 [OF r s w'] e l by metis
  next
    assume l: "linear e = [[0,1],[1,1]]"
    show ?thesis using roundtrip_cx01_cx10 [OF r s w'] e l by metis
  next
    assume l: "linear e = [[1,1],[1,0]]"
    show ?thesis using roundtrip_cx10_cx01 [OF r s w'] e l by metis
  next
    assume l: "linear e = [[0,1],[1,0]]"
    show ?thesis using roundtrip_swap [OF r s w'] e l by metis
  qed
  then obtain c where "decompose_CNOTDihedral e = Inr c"
    and "run2 nm c (elem2 0 0 0 0 [[1,0],[0,1]] 0 0) = Ok e"
    by (cases "decompose_CNOTDihedral e") auto
  then show ?thesis
    by (simp add: identity_elem_2 append_circuit_run2)
qed

lemma round_trip_1:
  assumes "wf_elem e" and "num_qubits e = 1" and "invertible_z2 1 (linear e)"
    and "weight_0 (poly e) = 0"
  shows "\<exists>c. decompose_CNOTDihedral e = Inr c
            \<and> append_circuit (identity_elem 1) nm c None = Ok e"
proof -
  from wf_elem_1 [OF assms(1,2)] assms(4) obtain a x s
    where e: "e = elem1 0 a x s" and r: "0 \<le> a" "a < 8"
      and x: "x = 0 \<or> x = 1" and s: "s = 0 \<or> s = 1"
    by auto
  from e have "linear e = [[x]]" by (simp add: elem1_def)
  with assms(3) x have "x = 1" using invertible_1x1 by simp
  with e have e': "e = elem1 0 a 1 s" by simp
  from roundtrip_1 [OF r s] obtain c where "decompose_CNOTDihedral (elem1 0 a 1 s) = Inr c"
    and "append_circuit (elem1 0 0 1 0) nm c None = Ok (elem1 0 a 1 s)"
    by (cases "decompose_CNOTDihedral (elem1 0 a 1 s)") auto
  with e' show ?thesis
    by (simp add: identity_elem_1)
qed

text \<open>
  For a well-formed element on one or two qubits whose linear part is invertible, whose
  constant term is 0 and whose quadratic coefficient is even, the synthesis returns a circuit,
  and \<^verbatim>\<open>append_circuit\<close> of that circuit to the fresh identity element returns an element equal
  to the given one, field by field and hence by key. These are the elements that the generators
  build from the identity.
\<close>

lemma synthesis_round_trip:
  assumes "wf_elem e" and "num_qubits e < 3" and "invertible_z2 (num_qubits e) (linear e)"
    and "weight_0 (poly e) = 0" and "list_all even (weight_2 (poly e))"
  shows "\<exists>c. decompose_CNOTDihedral e = Inr c
            \<and> CNOTDihedral_init (num_qubits e) = Inr (identity_elem (num_qubits e))
            \<and> append_circuit (identity_elem (num_qubits e)) nm c None = Ok e
            \<and> key (state (append_circuit (identity_elem (num_qubits e)) nm c None)) = key e"
proof -
  from assms(1) have n1: "1 \<le> num_qubits e"
    by (simp add: wf_elem_def wf_poly_def)
  with assms(2) have n: "num_qubits e = 1 \<or> num_qubits e = 2"
    by arith
  have init: "CNOTDihedral_init (num_qubits e) = Inr (identity_elem (num_qubits e))"
    using n1 by (rule CNOTDihedral_init_identity_elem)
  from n have "\<exists>c. decompose_CNOTDihedral e = Inr c
            \<and> append_circuit (identity_elem (num_qubits e)) nm c None = Ok e"
  proof
    assume "num_qubits e = 1"
    with round_trip_1 [OF assms(1) this] assms(3,4) show ?thesis by simp
  next
    assume "num_qubits e = 2"
    with round_trip_2 [OF assms(1) this] assms(3,4,5) show ?thesis by simp
  qed
  with init show ?thesis by auto
qed

lemma synthesis_round_trip_example:
  "decompose_CNOTDihedral (elem2 0 3 5 2 [[1,0],[1,1]] 0 1)
     = Inr (u1 1 1 (cx 0 1 (x_gate 1 (u1 6 1 (u1 4 0 [])))))
   \<and> append_circuit (identity_elem 2) ''qc'' (u1 1 1 (cx 0 1 (x_gate 1 (u1 6 1 (u1 4 0 []))))) None
       = Ok (elem2 0 3 5 2 [[1,0],[1,1]] 0 1)
   \<and> key (state (append_circuit (identity_elem 2) ''qc''
                   (u1 1 1 (cx 0 1 (x_gate 1 (u1 6 1 (u1 4 0 []))))) None))
       = key (elem2 0 3 5 2 [[1,0],[1,1]] 0 1)"
proof -
  let ?e = "elem2 0 3 5 2 [[1,0],[1,1]] 0 1"
  have h1: "wf_elem ?e" by code_simp
  have h2: "num_qubits ?e < 3" by simp
  have "is_z2_matrix 2 [[1,0],[1,1]]
        \<and> z2matmul 2 [[1,0],[1,1]] [[1,0],[1,1]] = Inr (identity_matrix 2)"
    by code_simp
  then have h3: "invertible_z2 (num_qubits ?e) (linear ?e)"
    by (auto simp: invertible_z2_def)
  have h4: "weight_0 (poly ?e) = 0" by simp
  have h5: "list_all even (weight_2 (poly ?e))" by simp
  have d: "decompose_CNOTDihedral ?e = Inr (u1 1 1 (cx 0 1 (x_gate 1 (u1 6 1 (u1 4 0 [])))))"
    by code_simp
  from synthesis_round_trip [OF h1 h2 h3 h4 h5] d show ?thesis
    by auto
qed

text \<open>
  C1. The round trip should hold for every element on one or two qubits. It fails on elements
  that composition returns. On one qubit, \<^verbatim>\<open>T * X\<close> (apply the flip, then the phase gate) as
  \<^verbatim>\<open>__mul__\<close> computes it is a well-formed element with invertible linear part and constant
  term 1, and the synthesis fails on it, by its assertion that the constant term is 0. The same
  two gates applied as generators, \<^verbatim>\<open>flip(0)\<close> then \<^verbatim>\<open>phase(1, 0)\<close>, build the element with
  constant term 0, whose round trip succeeds; the two elements have different keys.
\<close>

theorem composition_result_not_synthesized:
  "mul (state (phase (identity_elem 1) 1 0)) (state (flip (identity_elem 1) 0))
     = Inr (elem1 1 7 1 1)
   \<and> wf_elem (elem1 1 7 1 1)
   \<and> z2matmul 1 (linear (elem1 1 7 1 1)) [[1]] = Inr (identity_matrix 1)
   \<and> decompose_CNOTDihedral (elem1 1 7 1 1) = Inl (AssertionError [])
   \<and> phase (state (flip (identity_elem 1) 0)) 1 0 = Ok (elem1 0 7 1 1)
   \<and> decompose_CNOTDihedral (elem1 0 7 1 1) = Inr (x_gate 0 (u1 7 0 []))
   \<and> append_circuit (identity_elem 1) ''qc'' (x_gate 0 (u1 7 0 [])) None = Ok (elem1 0 7 1 1)
   \<and> key (elem1 1 7 1 1) \<noteq> key (elem1 0 7 1 1)"
  by code_simp


section \<open>The linear part over Z2\<close>

lemma fold_res_append:
  "fold_res f (xs @ ys) a = bind_res (fold_res f xs a) (fold_res f ys)"
  by (induction xs arbitrary: a) (simp_all add: bind_res_def split: sum.splits)

lemma fold_res_map: "fold_res f (map g xs) a = fold_res (\<lambda>x. f (g x)) xs a"
  by (induction xs arbitrary: a) (simp_all add: bind_res_def split: sum.splits)

lemma py_getitem_nat [simp]: "i < length xs \<Longrightarrow> py_getitem xs (int i) = Inr (xs ! i)"
  by (simp add: py_getitem_def py_index_def)

lemma py_setitem_nat [simp]: "i < length xs \<Longrightarrow> py_setitem xs (int i) v = Inr (xs[i := v])"
  by (simp add: py_setitem_def py_index_def)

lemma bind_res_Inr_simp [simp]: "bind_res (Inr v) f = f v"
  by (simp add: bind_res_def)

lemma bind_res_fold_Nil [simp]: "bind_res r (fold_res f []) = r"
  by (cases r) (simp_all add: bind_res_def)

lemma shaped_nth: "shaped n M \<Longrightarrow> i < n \<Longrightarrow> length (M ! i) = n"
  by (simp add: shaped_def)

lemma shaped_length: "shaped n M \<Longrightarrow> length M = n"
  by (simp add: shaped_def)

lemma shaped_update: "shaped n M \<Longrightarrow> length r = n \<Longrightarrow> shaped n (M[i := r])"
  by (auto simp: shaped_def dest: set_update_subset_insert [THEN subsetD])

lemma z2matmul_steps:
  "z2matmul n left right =
     fold_res (\<lambda>i. fold_res (\<lambda>j. fold_res (z2_step left right i j) (py_range n)) (py_range n))
       (py_range n) (replicate (nat n) (replicate (nat n) 0))"
  unfolding z2matmul_def z2_step_def ..

lemma z2_step_shaped:
  assumes "shaped n L" "shaped n R" "shaped n P" "i < n" "j < n" "k < n"
  shows "z2_step L R (int i) (int j) (int k) P
           = Inr (P[i := (P ! i)[j := (P ! i ! j + L ! i ! k * R ! k ! j) mod 2]])"
  using assms by (simp add: z2_step_def shaped_nth shaped_length)

lemma k_loop:
  assumes "shaped n L" "shaped n R" "shaped n P" "i < n" "j < n" "P ! i ! j = 0"
  shows "m \<le> n \<Longrightarrow>
     fold_res (z2_step L R (int i) (int j)) (map int [0..<m]) P
       = Inr (P[i := (P ! i)[j := z2dot m L R i j]])"
proof (induction m)
  case 0
  have "(P ! i)[j := 0] = P ! i"
    using assms(6) by (metis list_update_id)
  then show ?case by (simp add: z2dot_def)
next
  case (Suc m)
  let ?Q = "P[i := (P ! i)[j := z2dot m L R i j]]"
  have Q: "shaped n ?Q"
    using assms by (simp add: shaped_update shaped_nth)
  have k: "m < n" using Suc.prems by simp
  have il: "i < length P" "j < length (P ! i)"
    using assms by (simp_all add: shaped_length shaped_nth)
  have "fold_res (z2_step L R (int i) (int j)) (map int [0..<Suc m]) P
          = z2_step L R (int i) (int j) (int m) ?Q"
    using Suc by (simp add: fold_res_append)
  also have "\<dots> = Inr (?Q[i := (?Q ! i)[j := (?Q ! i ! j + L ! i ! m * R ! m ! j) mod 2]])"
    by (rule z2_step_shaped [OF assms(1,2) Q assms(4,5) k])
  also have "?Q[i := (?Q ! i)[j := (?Q ! i ! j + L ! i ! m * R ! m ! j) mod 2]]
          = P[i := (P ! i)[j := z2dot (Suc m) L R i j]]"
    using il by (simp add: z2dot_def mod_simps)
  finally show ?case .
qed

lemma nth_list_update_rows:
  "i < length P \<Longrightarrow> (P[i := r]) ! i' = (if i' = i then r else P ! i')"
  by (simp add: nth_list_update)

lemma j_loop:
  assumes "shaped n L" "shaped n R" "shaped n P" "i < n" "P ! i = replicate n 0"
  shows "m \<le> n \<Longrightarrow>
     fold_res (\<lambda>j. fold_res (z2_step L R (int i) j) (py_range (int n))) (map int [0..<m]) P
       = Inr (P[i := map (\<lambda>j. if j < m then z2dot n L R i j else 0) [0..<n]])"
proof (induction m)
  case 0
  have "map (\<lambda>j. 0::int) [0..<n] = replicate n 0"
    by (simp add: map_replicate_const)
  moreover have "P[i := replicate n 0] = P"
    using assms(5) by (metis list_update_id)
  ultimately show ?case
    by simp
next
  case (Suc m)
  let ?row = "\<lambda>m. map (\<lambda>j. if j < m then z2dot n L R i j else 0) [0..<n]"
  let ?Q = "P[i := ?row m]"
  have Q: "shaped n ?Q"
    using assms by (simp add: shaped_update)
  have m: "m < n" using Suc.prems by simp
  have iP: "i < length P" using assms by (simp add: shaped_length)
  have Qi: "?Q ! i = ?row m" using iP by simp
  have z: "?Q ! i ! m = 0" using m by (simp add: Qi)
  have "fold_res (\<lambda>j. fold_res (z2_step L R (int i) j) (py_range (int n))) (map int [0..<Suc m]) P
          = fold_res (z2_step L R (int i) (int m)) (map int [0..<n]) ?Q"
    using Suc by (simp add: fold_res_append py_range_def)
  also have "\<dots> = Inr (?Q[i := (?Q ! i)[m := z2dot n L R i m]])"
    by (rule k_loop [OF assms(1,2) Q assms(4) m z]) simp
  also have "?Q[i := (?Q ! i)[m := z2dot n L R i m]] = P[i := (?row m)[m := z2dot n L R i m]]"
    using iP by simp
  also have "(?row m)[m := z2dot n L R i m] = ?row (Suc m)"
    using m by (intro nth_equalityI) (auto simp: nth_list_update less_Suc_eq)
  finally show ?case .
qed

lemma i_loop:
  assumes "shaped n L" "shaped n R"
  shows "m \<le> n \<Longrightarrow>
     fold_res (\<lambda>i. fold_res (\<lambda>j. fold_res (z2_step L R i j) (py_range (int n))) (py_range (int n)))
        (map int [0..<m]) (replicate n (replicate n 0))
       = Inr (map (\<lambda>i. if i < m then map (\<lambda>j. z2dot n L R i j) [0..<n] else replicate n 0) [0..<n])"
proof (induction m)
  case 0
  show ?case
    by (simp add: map_replicate_const)
next
  case (Suc m)
  let ?S = "\<lambda>m. map (\<lambda>i. if i < m then map (\<lambda>j. z2dot n L R i j) [0..<n] else replicate n 0) [0..<n]"
  have S: "shaped n (?S m)"
    by (auto simp: shaped_def)
  have m: "m < n" using Suc.prems by simp
  have Sm: "?S m ! m = replicate n 0" using m by simp
  have "fold_res (\<lambda>i. fold_res (\<lambda>j. fold_res (z2_step L R i j) (py_range (int n))) (py_range (int n)))
        (map int [0..<Suc m]) (replicate n (replicate n 0))
       = fold_res (\<lambda>j. fold_res (z2_step L R (int m) j) (py_range (int n))) (map int [0..<n]) (?S m)"
    using Suc by (simp add: fold_res_append py_range_def)
  also have "\<dots> = Inr ((?S m)[m := map (\<lambda>j. if j < n then z2dot n L R m j else 0) [0..<n]])"
    by (rule j_loop [OF assms S m Sm]) simp
  also have "(?S m)[m := map (\<lambda>j. if j < n then z2dot n L R m j else 0) [0..<n]] = ?S (Suc m)"
    using m by (intro nth_equalityI) (auto simp: nth_list_update less_Suc_eq)
  finally show ?case .
qed

lemma z2matmul_mm:
  assumes "shaped n L" "shaped n R"
  shows "z2matmul (int n) L R = Inr (mm n L R)"
proof -
  have "z2matmul (int n) L R
      = fold_res (\<lambda>i. fold_res (\<lambda>j. fold_res (z2_step L R i j) (py_range (int n))) (py_range (int n)))
        (map int [0..<n]) (replicate n (replicate n 0))"
    by (simp add: z2matmul_steps py_range_def)
  also have "\<dots> = Inr (map (\<lambda>i. if i < n then map (\<lambda>j. z2dot n L R i j) [0..<n] else replicate n 0) [0..<n])"
    by (rule i_loop [OF assms]) simp
  also have "map (\<lambda>i. if i < n then map (\<lambda>j. z2dot n L R i j) [0..<n] else replicate n 0) [0..<n]
      = mm n L R"
    by (simp add: mm_def)
  finally show ?thesis .
qed

lemma mm_nth: "i < n \<Longrightarrow> j < n \<Longrightarrow> mm n A B ! i ! j = z2dot n A B i j"
  by (simp add: mm_def)

lemma shaped_mm: "shaped n (mm n A B)"
  by (auto simp: shaped_def mm_def)

lemma z2mat_mm: "z2mat n (mm n A B)"
proof -
  have "z2dot n A B i j = 0 \<or> z2dot n A B i j = 1" for i j
    unfolding z2dot_def by presburger
  then show ?thesis
    by (simp add: z2mat_def shaped_mm mm_nth)
qed

lemma matrix_eqI:
  assumes "shaped n A" "shaped n B" "\<And>i j. i < n \<Longrightarrow> j < n \<Longrightarrow> A ! i ! j = B ! i ! j"
  shows "A = B"
proof (rule nth_equalityI)
  show "length A = length B" using assms by (simp add: shaped_length)
next
  fix i assume "i < length A"
  then have i: "i < n" using assms by (simp add: shaped_length)
  show "A ! i = B ! i"
  proof (rule nth_equalityI)
    show "length (A ! i) = length (B ! i)"
      using assms i by (simp add: shaped_nth)
  next
    fix j assume "j < length (A ! i)"
    then have "j < n" using assms i by (simp add: shaped_nth)
    with i show "A ! i ! j = B ! i ! j" by (rule assms(3))
  qed
qed

lemma sum_mod2_left:
  "(\<Sum>k<n. (s k mod 2) * c k) mod 2 = (\<Sum>k<n. s k * c k) mod (2::int)"
proof -
  have "(\<Sum>k<n. (s k mod 2) * c k) mod 2 = (\<Sum>k<n. ((s k mod 2) * c k) mod 2) mod 2"
    by (simp add: mod_sum_eq)
  also have "\<dots> = (\<Sum>k<n. (s k * c k) mod 2) mod 2"
    by (simp add: mod_mult_left_eq)
  also have "\<dots> = (\<Sum>k<n. s k * c k) mod 2"
    by (simp add: mod_sum_eq)
  finally show ?thesis .
qed

lemma sum_mod2_right:
  "(\<Sum>k<n. c k * (s k mod 2)) mod 2 = (\<Sum>k<n. c k * s k) mod (2::int)"
  using sum_mod2_left [of s c n] by (simp add: mult.commute)

lemma z2dot_mm_left:
  assumes "i < n" "j < n"
  shows "z2dot n (mm n A B) C i j = (\<Sum>k<n. \<Sum>l<n. A ! i ! l * B ! l ! k * C ! k ! j) mod 2"
proof -
  have "z2dot n (mm n A B) C i j = (\<Sum>k<n. ((\<Sum>l<n. A ! i ! l * B ! l ! k) mod 2) * C ! k ! j) mod 2"
    using assms by (simp add: z2dot_def mm_nth)
  also have "\<dots> = (\<Sum>k<n. (\<Sum>l<n. A ! i ! l * B ! l ! k) * C ! k ! j) mod 2"
    by (rule sum_mod2_left)
  also have "\<dots> = (\<Sum>k<n. \<Sum>l<n. A ! i ! l * B ! l ! k * C ! k ! j) mod 2"
    by (simp add: sum_distrib_right)
  finally show ?thesis .
qed

lemma z2dot_mm_right:
  assumes "i < n" "j < n"
  shows "z2dot n A (mm n B C) i j = (\<Sum>k<n. \<Sum>l<n. A ! i ! l * B ! l ! k * C ! k ! j) mod 2"
proof -
  have "z2dot n A (mm n B C) i j = (\<Sum>l<n. A ! i ! l * ((\<Sum>k<n. B ! l ! k * C ! k ! j) mod 2)) mod 2"
    using assms by (simp add: z2dot_def mm_nth)
  also have "\<dots> = (\<Sum>l<n. A ! i ! l * (\<Sum>k<n. B ! l ! k * C ! k ! j)) mod 2"
    by (rule sum_mod2_right)
  also have "\<dots> = (\<Sum>l<n. \<Sum>k<n. A ! i ! l * B ! l ! k * C ! k ! j) mod 2"
    by (simp add: sum_distrib_left mult.assoc)
  also have "\<dots> = (\<Sum>k<n. \<Sum>l<n. A ! i ! l * B ! l ! k * C ! k ! j) mod 2"
    by (subst sum.swap) simp
  finally show ?thesis .
qed

lemma mm_assoc: "mm n (mm n A B) C = mm n A (mm n B C)"
  by (rule matrix_eqI [OF shaped_mm shaped_mm])
     (simp add: mm_nth z2dot_mm_left z2dot_mm_right)

lemma idm_nth: "i < n \<Longrightarrow> j < n \<Longrightarrow> idm n ! i ! j = (if i = j then 1 else 0)"
  by (simp add: idm_def)

lemma shaped_idm: "shaped n (idm n)"
  by (auto simp: shaped_def idm_def)

lemma z2mat_idm: "z2mat n (idm n)"
  by (simp add: z2mat_def shaped_idm idm_nth)

lemma mm_idm_left:
  assumes "z2mat n M"
  shows "mm n (idm n) M = M"
proof (rule matrix_eqI [OF shaped_mm])
  show "shaped n M" using assms by (simp add: z2mat_def)
next
  fix i j assume ij: "i < n" "j < n"
  have "(\<Sum>k<n. idm n ! i ! k * M ! k ! j) = (\<Sum>k<n. if k = i then M ! k ! j else 0)"
    using ij by (intro sum.cong) (auto simp: idm_nth)
  also have "\<dots> = M ! i ! j"
    using ij by simp
  finally have "z2dot n (idm n) M i j = M ! i ! j mod 2"
    by (simp add: z2dot_def)
  moreover have "M ! i ! j = 0 \<or> M ! i ! j = 1"
    using assms ij by (simp add: z2mat_def)
  then have "M ! i ! j mod 2 = M ! i ! j"
    by auto
  ultimately show "mm n (idm n) M ! i ! j = M ! i ! j"
    using ij by (simp add: mm_nth)
qed

lemma mm_idm_right:
  assumes "z2mat n M"
  shows "mm n M (idm n) = M"
proof (rule matrix_eqI [OF shaped_mm])
  show "shaped n M" using assms by (simp add: z2mat_def)
next
  fix i j assume ij: "i < n" "j < n"
  have "(\<Sum>k<n. M ! i ! k * idm n ! k ! j) = (\<Sum>k<n. if k = j then M ! i ! k else 0)"
    using ij by (intro sum.cong) (auto simp: idm_nth)
  also have "\<dots> = M ! i ! j"
    using ij by simp
  finally have "z2dot n M (idm n) i j = M ! i ! j mod 2"
    by (simp add: z2dot_def)
  moreover have "M ! i ! j = 0 \<or> M ! i ! j = 1"
    using assms ij by (simp add: z2mat_def)
  then have "M ! i ! j mod 2 = M ! i ! j"
    by auto
  ultimately show "mm n M (idm n) ! i ! j = M ! i ! j"
    using ij by (simp add: mm_nth)
qed

lemma is_z2_matrix_z2mat: "is_z2_matrix (int n) M \<longleftrightarrow> z2mat n M"
proof
  assume a: "is_z2_matrix (int n) M"
  then have len: "length M = n" and rows: "\<forall>r \<in> set M. is_z2_vector (int n) r"
    by (simp_all add: is_z2_matrix_def list_all_iff)
  have "shaped n M"
    using len rows by (auto simp: shaped_def is_z2_vector_def)
  moreover have "M ! i ! j = 0 \<or> M ! i ! j = 1" if "i < n" "j < n" for i j
  proof -
    from that len have "M ! i \<in> set M" by simp
    with rows have "is_z2_vector (int n) (M ! i)" by blast
    then have "length (M ! i) = n" and "\<forall>x \<in> set (M ! i). x = 0 \<or> x = 1"
      by (simp_all add: is_z2_vector_def list_all_iff)
    with that show ?thesis by (metis nth_mem)
  qed
  ultimately show "z2mat n M" by (simp add: z2mat_def)
next
  assume a: "z2mat n M"
  then have sh: "shaped n M" and en: "\<forall>i<n. \<forall>j<n. M ! i ! j = 0 \<or> M ! i ! j = 1"
    by (simp_all add: z2mat_def)
  have "is_z2_vector (int n) r" if "r \<in> set M" for r
  proof -
    from that obtain i where i: "i < length M" "r = M ! i"
      by (auto simp: in_set_conv_nth)
    with sh have in': "i < n" and lr: "length r = n"
      by (simp_all add: shaped_def)
    have "x = 0 \<or> x = 1" if "x \<in> set r" for x
    proof -
      from that obtain j where "j < length r" "x = r ! j"
        by (auto simp: in_set_conv_nth)
      with en in' lr i show ?thesis by simp
    qed
    with lr show ?thesis by (simp add: is_z2_vector_def list_all_iff)
  qed
  with sh show "is_z2_matrix (int n) M"
    by (simp add: is_z2_matrix_def list_all_iff shaped_def)
qed

lemma is_z2_matrix_nat: "is_z2_matrix n M \<Longrightarrow> n = int (nat n) \<and> z2mat (nat n) M"
proof -
  assume a: "is_z2_matrix n M"
  then have "n = int (length M)" by (simp add: is_z2_matrix_def)
  then have n: "n = int (nat n)" by simp
  with a is_z2_matrix_z2mat [of "nat n" M] show ?thesis by simp
qed

lemma identity_matrix_idm: "identity_matrix (int n) = idm n"
  by (simp add: identity_matrix_def idm_def py_range_def comp_def)

lemma invertible_z2_mm:
  assumes "z2mat n M"
  shows "invertible_z2 (int n) M \<longleftrightarrow>
           (\<exists>N. z2mat n N \<and> mm n M N = idm n \<and> mm n N M = idm n)"
proof -
  have "z2matmul (int n) M N = Inr (mm n M N) \<and> z2matmul (int n) N M = Inr (mm n N M)"
    if "z2mat n N" for N
    using assms that by (simp add: z2mat_def z2matmul_mm)
  then show ?thesis
    unfolding invertible_z2_def is_z2_matrix_z2mat identity_matrix_idm by auto
qed

lemma invertible_idm: "invertible_z2 (int n) (idm n)"
  unfolding invertible_z2_mm [OF z2mat_idm]
  using z2mat_idm mm_idm_left [OF z2mat_idm] by blast

lemma invertible_mm:
  assumes "z2mat n A" "z2mat n B" "invertible_z2 (int n) A" "invertible_z2 (int n) B"
  shows "invertible_z2 (int n) (mm n A B)"
proof -
  from assms(1,3) obtain A' where A': "z2mat n A'" "mm n A A' = idm n" "mm n A' A = idm n"
    by (auto simp: invertible_z2_mm)
  from assms(2,4) obtain B' where B': "z2mat n B'" "mm n B B' = idm n" "mm n B' B = idm n"
    by (auto simp: invertible_z2_mm)
  have "mm n (mm n A B) (mm n B' A') = mm n A (mm n (mm n B B') A')"
    by (simp add: mm_assoc)
  also have "\<dots> = idm n"
    by (simp add: B'(2) mm_idm_left [OF A'(1)] A'(2))
  finally have 1: "mm n (mm n A B) (mm n B' A') = idm n" .
  have "mm n (mm n B' A') (mm n A B) = mm n B' (mm n (mm n A' A) B)"
    by (simp add: mm_assoc)
  also have "\<dots> = idm n"
    by (simp add: A'(3) mm_idm_left [OF assms(2)] B'(3))
  finally have 2: "mm n (mm n B' A') (mm n A B) = idm n" .
  show ?thesis
    unfolding invertible_z2_mm [OF z2mat_mm]
    using 1 2 z2mat_mm by blast
qed

lemma elem_mat_nth:
  "r < n \<Longrightarrow> c < n \<Longrightarrow> elem_mat n i j ! r ! c = (if r = c \<or> (r = j \<and> c = i) then 1 else 0)"
  by (simp add: elem_mat_def)

lemma z2mat_elem_mat: "z2mat n (elem_mat n i j)"
  by (auto simp: z2mat_def shaped_def elem_mat_def)

lemma shaped_add_row: "shaped n M \<Longrightarrow> shaped n (add_row n i j M)"
  by (simp add: add_row_def shaped_update)

lemma add_row_nth:
  "shaped n M \<Longrightarrow> r < n \<Longrightarrow> c < n \<Longrightarrow> j < n \<Longrightarrow>
     add_row n i j M ! r ! c = (if r = j then (M ! i ! c + M ! j ! c) mod 2 else M ! r ! c)"
  by (simp add: add_row_def nth_list_update shaped_length)

lemma add_row_mm:
  assumes "z2mat n M" "i < n" "j < n" "i \<noteq> j"
  shows "add_row n i j M = mm n (elem_mat n i j) M"
proof (rule matrix_eqI [OF _ shaped_mm])
  show "shaped n (add_row n i j M)"
    using assms by (simp add: shaped_add_row z2mat_def)
next
  fix r c assume rc: "r < n" "c < n"
  have sh: "shaped n M" using assms by (simp add: z2mat_def)
  have bin: "M ! r ! c mod 2 = M ! r ! c"
  proof -
    have "M ! r ! c = 0 \<or> M ! r ! c = 1" using assms(1) rc by (simp add: z2mat_def)
    then show ?thesis by auto
  qed
  have "(\<Sum>k<n. elem_mat n i j ! r ! k * M ! k ! c)
      = (\<Sum>k<n. (if k = r then M ! k ! c else 0) + (if r = j \<and> k = i then M ! k ! c else 0))"
    using rc assms(4) by (intro sum.cong) (auto simp: elem_mat_nth)
  also have "\<dots> = M ! r ! c + (if r = j then M ! i ! c else 0)"
    using rc assms(2) by (simp add: sum.distrib)
  finally have "z2dot n (elem_mat n i j) M r c = (M ! r ! c + (if r = j then M ! i ! c else 0)) mod 2"
    by (simp add: z2dot_def)
  then show "add_row n i j M ! r ! c = mm n (elem_mat n i j) M ! r ! c"
    using rc assms(3) sh bin by (simp add: add_row_nth mm_nth add.commute)
qed

lemma elem_mat_square:
  assumes "i < n" "j < n" "i \<noteq> j"
  shows "mm n (elem_mat n i j) (elem_mat n i j) = idm n"
proof -
  have "mm n (elem_mat n i j) (elem_mat n i j) = add_row n i j (elem_mat n i j)"
    using add_row_mm [OF z2mat_elem_mat assms] by simp
  also have "\<dots> = idm n"
  proof (rule matrix_eqI [OF _ shaped_idm])
    show "shaped n (add_row n i j (elem_mat n i j))"
      using z2mat_elem_mat by (simp add: shaped_add_row z2mat_def)
  next
    fix r c assume rc: "r < n" "c < n"
    have sh: "shaped n (elem_mat n i j)" using z2mat_elem_mat by (simp add: z2mat_def)
    show "add_row n i j (elem_mat n i j) ! r ! c = idm n ! r ! c"
      using rc assms by (auto simp: add_row_nth [OF sh] elem_mat_nth idm_nth)
  qed
  finally show ?thesis .
qed

lemma invertible_add_row:
  assumes "z2mat n M" "invertible_z2 (int n) M" "i < n" "j < n" "i \<noteq> j"
  shows "z2mat n (add_row n i j M) \<and> invertible_z2 (int n) (add_row n i j M)"
proof -
  have E: "invertible_z2 (int n) (elem_mat n i j)"
    unfolding invertible_z2_mm [OF z2mat_elem_mat]
    using z2mat_elem_mat elem_mat_square [OF assms(3,4,5)] by blast
  have "add_row n i j M = mm n (elem_mat n i j) M"
    by (rule add_row_mm [OF assms(1,3,4,5)])
  with invertible_mm [OF z2mat_elem_mat assms(1) E assms(2)] z2mat_mm show ?thesis
    by simp
qed

lemma map_res_map_int: "map_res f (map int xs) = map_res (\<lambda>k. f (int k)) xs"
  by (induction xs) simp_all

lemma map_res_Inr:
  "(\<And>x. x \<in> set xs \<Longrightarrow> f x = Inr (g x)) \<Longrightarrow> map_res f xs = Inr (map g xs)"
  by (induction xs) simp_all

lemma cnot_linear:
  assumes "z2mat n (linear e)" and "num_qubits e = int n"
  shows "linear (state (cnot e i j)) = linear e
       \<or> (0 \<le> i \<and> 0 \<le> j \<and> nat i < n \<and> nat j < n \<and> i \<noteq> j
            \<and> linear (state (cnot e i j)) = add_row n (nat i) (nat j) (linear e))"
proof (cases "0 \<le> i \<and> 0 \<le> j \<and> i < int n \<and> j < int n \<and> i \<noteq> j")
  case False
  then have "\<exists>x. cnot e i j = Raise x e"
    using assms(2) by (auto simp: cnot_def)
  then have "state (cnot e i j) = e"
    by auto
  then show ?thesis by simp
next
  case True
  then obtain i' j' where ij: "i = int i'" "j = int j'" "i' < n" "j' < n" "i' \<noteq> j'"
    by (metis nat_int nat_less_iff zero_le_imp_eq_int of_nat_less_iff)
  have sh: "shaped n (linear e)" using assms(1) by (simp add: z2mat_def)
  have row: "map_res (\<lambda>k.
                 bind_res (py_getitem (linear e ! i') k) (\<lambda>a.
                 bind_res (py_getitem (linear e ! j') k) (\<lambda>b. Inr ((a + b) mod 2))))
               (py_range (int n))
           = Inr (map (\<lambda>k. (linear e ! i' ! k + linear e ! j' ! k) mod 2) [0..<n])"
    unfolding py_range_def nat_int map_res_map_int
    using ij sh by (intro map_res_Inr) (simp add: shaped_nth)
  have "linear (state (cnot e i j)) = add_row n i' j' (linear e)"
    using True ij sh assms(2)
    by (simp add: cnot_def row add_row_def shaped_length Let_def split: sum.splits)
  with ij show ?thesis by simp
qed

lemma mul_Inr:
  "mul a b = Inr r \<Longrightarrow>
     num_qubits a = num_qubits b \<and> num_qubits r = num_qubits a
     \<and> z2matmul (num_qubits a) (linear a) (linear b) = Inr (linear r)"
  by (auto simp: mul_def Let_def bind_res_Inr CNOTDihedral_init_def split: if_splits)

lemma rmul_Inr:
  "rmul a b = Inr r \<Longrightarrow>
     num_qubits a = num_qubits b \<and> num_qubits r = num_qubits a
     \<and> z2matmul (num_qubits a) (linear b) (linear a) = Inr (linear r)"
  by (auto simp: rmul_def Let_def bind_res_Inr CNOTDihedral_init_def split: if_splits)

lemma is_z2_matrix_obtain:
  assumes "is_z2_matrix n M"
  obtains N where "n = int N" and "z2mat N M"
proof -
  from assms have "n = int (length M)" by (simp add: is_z2_matrix_def)
  moreover from assms this have "z2mat (length M) M"
    by (simp add: is_z2_matrix_z2mat)
  ultimately show ?thesis using that by blast
qed

lemma product_invertible:
  assumes "is_z2_matrix n A" "invertible_z2 n A" "is_z2_matrix n B" "invertible_z2 n B"
    and "z2matmul n A B = Inr C"
  shows "is_z2_matrix n C \<and> invertible_z2 n C"
proof -
  from assms(1) obtain N where n: "n = int N" and A: "z2mat N A"
    by (rule is_z2_matrix_obtain)
  from assms(3) have B: "z2mat N B"
    unfolding n by (simp add: is_z2_matrix_z2mat)
  have "z2matmul (int N) A B = Inr (mm N A B)"
    using A B by (simp add: z2mat_def z2matmul_mm)
  with assms(5) have C: "C = mm N A B" unfolding n by simp
  have "invertible_z2 (int N) (mm N A B)"
    using invertible_mm [OF A B] assms(2,4) unfolding n by simp
  moreover have "is_z2_matrix (int N) (mm N A B)"
    by (simp add: is_z2_matrix_z2mat z2mat_mm)
  ultimately show ?thesis unfolding C n by simp
qed

lemma cnot_invertible:
  assumes "is_z2_matrix (num_qubits e) (linear e)" "invertible_z2 (num_qubits e) (linear e)"
  shows "is_z2_matrix (num_qubits (state (cnot e i j))) (linear (state (cnot e i j)))
       \<and> invertible_z2 (num_qubits (state (cnot e i j))) (linear (state (cnot e i j)))"
proof -
  from assms(1) obtain N where n: "num_qubits e = int N" and M: "z2mat N (linear e)"
    by (rule is_z2_matrix_obtain)
  have nq: "num_qubits (state (cnot e i j)) = int N"
    using cnot_frame [where e = e and i = i and j = j] n by simp
  have inv: "invertible_z2 (int N) (linear e)"
    using assms(2) unfolding n .
  from cnot_linear [OF M n, of i j] show ?thesis
  proof
    assume "linear (state (cnot e i j)) = linear e"
    with assms(1) inv n nq show ?thesis by simp
  next
    assume a: "0 \<le> i \<and> 0 \<le> j \<and> nat i < N \<and> nat j < N \<and> i \<noteq> j
      \<and> linear (state (cnot e i j)) = add_row N (nat i) (nat j) (linear e)"
    then have ne: "nat i \<noteq> nat j" and i: "nat i < N" and j: "nat j < N" by auto
    from invertible_add_row [OF M inv i j ne] a
    have "z2mat N (linear (state (cnot e i j)))
        \<and> invertible_z2 (int N) (linear (state (cnot e i j)))"
      by simp
    then show ?thesis
      unfolding nq by (simp add: is_z2_matrix_z2mat)
  qed
qed

lemma identity_invertible:
  assumes "1 \<le> n"
  shows "linear (identity_elem n) = identity_matrix n \<and> is_z2_matrix n (identity_matrix n)
       \<and> invertible_z2 n (identity_matrix n)"
proof -
  from assms obtain N where n: "n = int N"
    by (metis nonneg_int_cases order_trans zero_le_one)
  have "is_z2_matrix (int N) (idm N)"
    by (simp add: is_z2_matrix_z2mat z2mat_idm)
  moreover have "invertible_z2 (int N) (idm N)"
    by (rule invertible_idm)
  ultimately show ?thesis
    unfolding n identity_matrix_idm by (simp add: identity_elem_def identity_matrix_idm)
qed


lemma invertible_z2I:
  "is_z2_matrix n N \<Longrightarrow> z2matmul n M N = Inr (identity_matrix n) \<Longrightarrow>
   z2matmul n N M = Inr (identity_matrix n) \<Longrightarrow> invertible_z2 n M"
  by (auto simp: invertible_z2_def)



section \<open>Composition\<close>

lemma z2matvecmul_steps:
  "z2matvecmul n mat vec =
     fold_res (\<lambda>i. fold_res (z2_vec_step mat vec i) (py_range n)) (py_range n)
       (replicate (nat n) 0)"
  unfolding z2matvecmul_def z2_vec_step_def ..

lemma vec_j_loop:
  assumes "shaped n M" "length v = n" "length P = n" "i < n" "P ! i = 0"
  shows "m \<le> n \<Longrightarrow>
     fold_res (z2_vec_step M v (int i)) (map int [0..<m]) P = Inr (P[i := z2vdot m M v i])"
proof (induction m)
  case 0
  have "P[i := 0] = P" using assms(5) by (metis list_update_id)
  then show ?case by (simp add: z2vdot_def)
next
  case (Suc m)
  let ?Q = "P[i := z2vdot m M v i]"
  have m: "m < n" using Suc.prems by simp
  have "fold_res (z2_vec_step M v (int i)) (map int [0..<Suc m]) P
          = z2_vec_step M v (int i) (int m) ?Q"
    using Suc by (simp add: fold_res_append)
  also have "\<dots> = Inr (?Q[i := (?Q ! i + M ! i ! m * v ! m) mod 2])"
    using assms m by (simp add: z2_vec_step_def shaped_length shaped_nth)
  also have "?Q[i := (?Q ! i + M ! i ! m * v ! m) mod 2] = P[i := z2vdot (Suc m) M v i]"
    using assms by (simp add: z2vdot_def mod_simps)
  finally show ?case .
qed

lemma vec_i_loop:
  assumes "shaped n M" "length v = n"
  shows "m \<le> n \<Longrightarrow>
     fold_res (\<lambda>i. fold_res (z2_vec_step M v i) (py_range (int n))) (map int [0..<m])
        (replicate n 0)
       = Inr (map (\<lambda>i. if i < m then z2vdot n M v i else 0) [0..<n])"
proof (induction m)
  case 0
  show ?case by (simp add: map_replicate_const)
next
  case (Suc m)
  let ?S = "\<lambda>m. map (\<lambda>i. if i < m then z2vdot n M v i else 0) [0..<n]"
  have m: "m < n" using Suc.prems by simp
  have len: "length (?S m) = n" by simp
  have z: "?S m ! m = 0" using m by simp
  have "fold_res (\<lambda>i. fold_res (z2_vec_step M v i) (py_range (int n))) (map int [0..<Suc m])
        (replicate n 0)
       = fold_res (z2_vec_step M v (int m)) (map int [0..<n]) (?S m)"
    using Suc by (simp add: fold_res_append py_range_def)
  also have "\<dots> = Inr ((?S m)[m := z2vdot n M v m])"
    by (rule vec_j_loop [OF assms len m z]) simp
  also have "(?S m)[m := z2vdot n M v m] = ?S (Suc m)"
    using m by (intro nth_equalityI) (auto simp: nth_list_update less_Suc_eq)
  finally show ?case .
qed

lemma z2matvecmul_z2vdot:
  assumes "shaped n M" "length v = n"
  shows "z2matvecmul (int n) M v = Inr (map (z2vdot n M v) [0..<n])"
proof -
  have "z2matvecmul (int n) M v
      = fold_res (\<lambda>i. fold_res (z2_vec_step M v i) (py_range (int n))) (map int [0..<n])
          (replicate n 0)"
    by (simp add: z2matvecmul_steps py_range_def)
  also have "\<dots> = Inr (map (\<lambda>i. if i < n then z2vdot n M v i else 0) [0..<n])"
    by (rule vec_i_loop [OF assms]) simp
  also have "map (\<lambda>i. if i < n then z2vdot n M v i else 0) [0..<n] = map (z2vdot n M v) [0..<n]"
    by simp
  finally show ?thesis .
qed

lemma neg_mod_8: "(x * - 1) mod 8 = (x * 7) mod (8::int)"
proof -
  have "x * 7 = x * - 1 + x * 8" by simp
  then show ?thesis by (simp only: mod_mult_self1)
qed

lemma mul_int_neg: "mul_int p (- 1) = mul_int p 7"
  unfolding mul_int_def neg_mod_8 ..

lemma new_var_spec:
  assumes "i < length lin" "i < length sh"
  shows "new_var n lin sh (int i) = spec_substituted_var n (lin ! i) (sh ! i)"
  using assms
  by (simp add: new_var_def spec_substituted_var_def mul_int_neg cong: if_cong)

lemma map_res_cong:
  "(\<And>x. x \<in> set xs \<Longrightarrow> f x = g x) \<Longrightarrow> map_res f xs = map_res g xs"
  by (induction xs) simp_all

lemma wf_elem_shapes:
  assumes "wf_elem e"
  obtains N where "num_qubits e = int N" "1 \<le> N" "z2mat N (linear e)" "length (shift e) = N"
proof -
  from assms have m: "is_z2_matrix (num_qubits e) (linear e)"
    and v: "is_z2_vector (num_qubits e) (shift e)" and n1: "1 \<le> num_qubits e"
    by (simp_all add: wf_elem_def wf_poly_def)
  from m obtain N where N: "num_qubits e = int N" "z2mat N (linear e)"
    by (rule is_z2_matrix_obtain)
  from v N(1) have "length (shift e) = N"
    by (simp add: is_z2_vector_def)
  moreover from n1 N(1) have "1 \<le> N" by simp
  ultimately show ?thesis using N that by blast
qed

lemma bind_res_assoc:
  "bind_res (bind_res m f) g = bind_res m (\<lambda>x. bind_res (f x) g)"
  by (cases m) (simp_all add: bind_res_def)

lemma mul_refines_spec:
  assumes "wf_elem a" and "wf_elem b" and nq: "num_qubits a = num_qubits b"
  shows "mul a b = spec_compose a b (linear b)"
proof -
  from assms(1) obtain N where N: "num_qubits a = int N" "1 \<le> N" "z2mat N (linear a)"
    "length (shift a) = N"
    by (rule wf_elem_shapes)
  from assms(2) nq N(1) have Nb: "z2mat N (linear b)" "length (shift b) = N"
    by (auto elim!: wf_elem_shapes)
  have shA: "shaped N (linear a)" and shB: "shaped N (linear b)"
    using N(3) Nb(1) by (simp_all add: z2mat_def)
  have mv: "z2matvecmul (int N) (linear a) (shift b) = Inr (map (z2vdot N (linear a) (shift b)) [0..<N])"
    by (rule z2matvecmul_z2vdot [OF shA Nb(2)])
  have mm: "z2matmul (int N) (linear a) (linear b) = Inr (mm N (linear a) (linear b))"
    by (rule z2matmul_mm [OF shA shB])
  have vars: "map_res (new_var (int N) (linear b) (shift b)) (py_range (int N))
      = map_res (\<lambda>i. spec_substituted_var (int N) (linear b ! i) (shift b ! i)) [0..<N]"
    unfolding py_range_def nat_int map_res_map_int
    using shB Nb(2) by (intro map_res_cong new_var_spec) (simp_all add: shaped_length)
  have zipped: "map (\<lambda>(x, y). (x + y) mod 2) (zip (map (z2vdot N (linear a) (shift b)) [0..<N]) (shift a))
      = map (\<lambda>i. (z2vdot N (linear a) (shift b) i + shift a ! i) mod 2) [0..<N]"
    using N(4) by (intro nth_equalityI) simp_all
  obtain result where init: "CNOTDihedral_init (int N) = Inr result"
    and res: "num_qubits result = int N"
    using N(2) by (simp add: CNOTDihedral_init_def SpecialPolynomial_init_def Let_def)
  have upd: "result\<lparr>shift := sh, linear := lin, poly := p\<rparr>
      = \<lparr>num_qubits = int N, poly = p, linear = lin, shift = sh\<rparr>" for sh lin p
    using res by (cases result) simp
  have nqb: "num_qubits b = int N" using nq N(1) by simp
  have "mul a b =
      bind_res (CNOTDihedral_init (int N)) (\<lambda>result.
      bind_res (map_res (\<lambda>i. spec_substituted_var (int N) (linear b ! i) (shift b ! i)) [0..<N])
        (\<lambda>new_vars.
      bind_res (evaluate (poly a) new_vars) (\<lambda>ev.
      bind_res (add_evaluated (poly b) ev) (\<lambda>new_poly.
        Inr (result\<lparr>shift := map (\<lambda>i. (z2vdot N (linear a) (shift b) i + shift a ! i) mod 2) [0..<N],
                      linear := mm N (linear a) (linear b), poly := new_poly\<rparr>)))))"
    unfolding mul_def Let_def N(1) nqb
    by (simp only: mv mm vars zipped bind_res_Inr_simp if_False not_not refl not_True_eq_False)
  also have "\<dots> = spec_compose a b (linear b)"
    unfolding init bind_res_Inr_simp upd
    by (simp add: spec_compose_def spec_compose_poly_def spec_shift_def N(1) bind_res_assoc)
  finally show ?thesis .
qed


text \<open>
  Composition does not return on every pair of elements: on four qubits the evaluation of a
  polynomial with a linear term raises in \<^verbatim>\<open>mul_monomial\<close>, where on three qubits it returns.
\<close>

lemma composition_raises_on_four_qubits:
  "wf_elem (state (phase (identity_elem 4) 1 0))
   \<and> wf_elem (identity_elem 4)
   \<and> mul (state (phase (identity_elem 4) 1 0)) (identity_elem 4) = Inl (AssertionError ''no term!'')
   \<and> mul (state (phase (identity_elem 3) 1 0)) (identity_elem 3)
       = Inr (state (phase (identity_elem 3) 1 0))"
  by code_simp



end
